theory Spec2Isabelle
  imports Complex_Main "HOL-Library.Log_Nat"
begin

section \<open>JavaScript numbers, as far as App.tsx uses them\<close>

text \<open>
  The fields \<open>gallonsLeft\<close>, \<open>startingGallons\<close>, \<open>gallonsUsed\<close>, \<open>totalOz\<close>, ... of App.tsx
  are JavaScript numbers, that is IEEE 754 doubles. A number is modelled as one of the three
  special values \<open>NaN\<close>, \<open>Infinity\<close>, \<open>-Infinity\<close> or as the rational value of a finite
  double. Every arithmetic operation computes the exact result and rounds it to the nearest
  double, the tie going to the even significand, and overflows to an infinity. The sign of
  zero is not modelled.
\<close>

subsection \<open>Rounding to the nearest double\<close>

text \<open>The binary exponent of a positive rational: \<open>2^e \<le> x < 2^(e+1)\<close>.\<close>

definition expo :: "rat \<Rightarrow> int" where
  "expo x = (if 1 \<le> x then bitlen \<lfloor>x\<rfloor> - 1 else - bitlen (\<lceil>1 / x\<rceil> - 1))"

text \<open>The nearest integer, the tie going to the even one.\<close>

definition round_even :: "rat \<Rightarrow> int" where
  "round_even r =
     (let f = \<lfloor>r\<rfloor>; d = r - of_int f
      in if d < 1 / 2 then f else if 1 / 2 < d then f + 1 else if even f then f else f + 1)"

text \<open>
  The distance between neighbouring doubles around \<open>x\<close>: the significand has 53 bits, and
  below \<open>2^-1022\<close> the doubles are the multiples of \<open>2^-1074\<close>.
\<close>

definition ulp :: "rat \<Rightarrow> rat" where
  "ulp x = 2 powi (max (expo \<bar>x\<bar>) (- 1022) - 52)"

text \<open>The multiple of \<open>ulp x\<close> nearest to \<open>x\<close>: the double nearest to \<open>x\<close>, short of overflow.\<close>

definition fl :: "rat \<Rightarrow> rat" where
  "fl x = (if x = 0 then 0 else sgn x * of_int (round_even (\<bar>x\<bar> / ulp x)) * ulp x)"

datatype jsnum = NaN | NegInf | Fin rat | PosInf

text \<open>
  The Number value for a rational: the nearest double, or an infinity when that rounding
  reaches \<open>2^1024\<close>. This is what a numeric literal of the source denotes (\<open>0.01\<close> is
  \<open>num (1 / 100)\<close>) and what every operation returns for its exact result.
\<close>

definition num :: "rat \<Rightarrow> jsnum" where
  "num x = (if 2 ^ 1024 \<le> \<bar>fl x\<bar> then (if x < 0 then NegInf else PosInf) else Fin (fl x))"

fun isNaN :: "jsnum \<Rightarrow> bool" where
  "isNaN NaN = True"
| "isNaN _ = False"

text \<open>\<open>a < b\<close>; every comparison with \<open>NaN\<close> is false.\<close>

fun js_lt :: "jsnum \<Rightarrow> jsnum \<Rightarrow> bool" where
  "js_lt NaN _ = False"
| "js_lt _ NaN = False"
| "js_lt (Fin a) (Fin b) = (a < b)"
| "js_lt NegInf NegInf = False"
| "js_lt NegInf _ = True"
| "js_lt _ NegInf = False"
| "js_lt PosInf _ = False"
| "js_lt _ PosInf = True"

text \<open>\<open>a <= b\<close>.\<close>

fun js_le :: "jsnum \<Rightarrow> jsnum \<Rightarrow> bool" where
  "js_le NaN _ = False"
| "js_le _ NaN = False"
| "js_le a b = (a = b \<or> js_lt a b)"

text \<open>\<open>a > b\<close> is \<open>b < a\<close>.\<close>

definition js_gt :: "jsnum \<Rightarrow> jsnum \<Rightarrow> bool" where
  "js_gt a b = js_lt b a"

text \<open>Unary minus.\<close>

fun js_neg :: "jsnum \<Rightarrow> jsnum" where
  "js_neg NaN = NaN"
| "js_neg NegInf = PosInf"
| "js_neg PosInf = NegInf"
| "js_neg (Fin a) = Fin (- a)"

text \<open>\<open>a + b\<close>, rounded; \<open>Infinity + -Infinity\<close> is \<open>NaN\<close>.\<close>

fun js_add :: "jsnum \<Rightarrow> jsnum \<Rightarrow> jsnum" where
  "js_add NaN _ = NaN"
| "js_add _ NaN = NaN"
| "js_add (Fin a) (Fin b) = num (a + b)"
| "js_add PosInf NegInf = NaN"
| "js_add NegInf PosInf = NaN"
| "js_add PosInf _ = PosInf"
| "js_add _ PosInf = PosInf"
| "js_add NegInf _ = NegInf"
| "js_add _ NegInf = NegInf"

text \<open>\<open>a - b\<close>, rounded.\<close>

definition js_sub :: "jsnum \<Rightarrow> jsnum \<Rightarrow> jsnum" where
  "js_sub a b = js_add a (js_neg b)"

text \<open>The sign of a number that is not \<open>NaN\<close>: \<open>-1\<close>, \<open>0\<close> or \<open>1\<close>.\<close>

fun js_sign :: "jsnum \<Rightarrow> int" where
  "js_sign NaN = 0"
| "js_sign NegInf = - 1"
| "js_sign PosInf = 1"
| "js_sign (Fin a) = (if a < 0 then - 1 else if a = 0 then 0 else 1)"

text \<open>\<open>a * b\<close>, rounded; \<open>Infinity * 0\<close> is \<open>NaN\<close>.\<close>

fun js_mul :: "jsnum \<Rightarrow> jsnum \<Rightarrow> jsnum" where
  "js_mul NaN _ = NaN"
| "js_mul _ NaN = NaN"
| "js_mul (Fin a) (Fin b) = num (a * b)"
| "js_mul a b =
     (if js_sign a * js_sign b = 0 then NaN
      else if js_sign a * js_sign b < 0 then NegInf else PosInf)"

text \<open>
  \<open>a / b\<close>, rounded. With a zero divisor JavaScript returns \<open>NaN\<close> for \<open>0 / 0\<close> and an
  infinity otherwise (taken here with the sign of the dividend, the divisor being \<open>+0\<close>).
\<close>

fun js_div :: "jsnum \<Rightarrow> jsnum \<Rightarrow> jsnum" where
  "js_div NaN _ = NaN"
| "js_div _ NaN = NaN"
| "js_div (Fin a) (Fin b) =
     (if b = 0 then (if a = 0 then NaN else if a < 0 then NegInf else PosInf)
      else num (a / b))"
| "js_div (Fin a) _ = Fin 0"
| "js_div a (Fin b) =
     (if js_sign a * (if b < 0 then - 1 else 1) < 0 then NegInf else PosInf)"
| "js_div _ _ = NaN"

text \<open>\<open>Math.min(a, b)\<close>: \<open>NaN\<close> if either argument is.\<close>

fun js_min :: "jsnum \<Rightarrow> jsnum \<Rightarrow> jsnum" where
  "js_min NaN _ = NaN"
| "js_min _ NaN = NaN"
| "js_min a b = (if js_lt b a then b else a)"

text \<open>\<open>Math.abs(a)\<close>.\<close>

fun js_abs :: "jsnum \<Rightarrow> jsnum" where
  "js_abs NaN = NaN"
| "js_abs NegInf = PosInf"
| "js_abs PosInf = PosInf"
| "js_abs (Fin a) = Fin \<bar>a\<bar>"

text \<open>Truthiness of a number: \<open>0\<close> and \<open>NaN\<close> are falsy.\<close>

fun truthy :: "jsnum \<Rightarrow> bool" where
  "truthy NaN = False"
| "truthy (Fin a) = (a \<noteq> 0)"
| "truthy _ = True"

text \<open>\<open>a || d\<close> on numbers.\<close>

definition js_or :: "jsnum \<Rightarrow> jsnum \<Rightarrow> jsnum" where
  "js_or a d = (if truthy a then a else d)"

section \<open>Strings and number formatting\<close>

text \<open>
  A string is the list of the bytes of its UTF-8 encoding. The white space that \<open>trim\<close> and
  \<open>parseFloat\<close> skip is the white space and the line terminators of ECMAScript: tab, line
  feed, vertical tab, form feed, carriage return, space, U+00A0 (no-break space), U+1680,
  U+2000 to U+200A, U+2028, U+2029, U+202F, U+205F, U+3000 and U+FEFF, each given here by
  its encoding.
\<close>

definition whiteSpace :: "string list" where
  "whiteSpace =
     [[CHR 0x09], [CHR 0x0A], [CHR 0x0B], [CHR 0x0C], [CHR 0x0D], [CHR 0x20],
      [CHR 0xC2, CHR 0xA0],
      [CHR 0xE1, CHR 0x9A, CHR 0x80],
      [CHR 0xE2, CHR 0x80, CHR 0x80], [CHR 0xE2, CHR 0x80, CHR 0x81],
      [CHR 0xE2, CHR 0x80, CHR 0x82], [CHR 0xE2, CHR 0x80, CHR 0x83],
      [CHR 0xE2, CHR 0x80, CHR 0x84], [CHR 0xE2, CHR 0x80, CHR 0x85],
      [CHR 0xE2, CHR 0x80, CHR 0x86], [CHR 0xE2, CHR 0x80, CHR 0x87],
      [CHR 0xE2, CHR 0x80, CHR 0x88], [CHR 0xE2, CHR 0x80, CHR 0x89],
      [CHR 0xE2, CHR 0x80, CHR 0x8A],
      [CHR 0xE2, CHR 0x80, CHR 0xA8], [CHR 0xE2, CHR 0x80, CHR 0xA9],
      [CHR 0xE2, CHR 0x80, CHR 0xAF],
      [CHR 0xE2, CHR 0x81, CHR 0x9F],
      [CHR 0xE3, CHR 0x80, CHR 0x80],
      [CHR 0xEF, CHR 0xBB, CHR 0xBF]]"

definition startsWith :: "string \<Rightarrow> string \<Rightarrow> bool" where
  "startsWith s w = (take (length w) s = w)"

definition endsWith :: "string \<Rightarrow> string \<Rightarrow> bool" where
  "endsWith s w = (drop (length s - length w) s = w)"

text \<open>
  The number of bytes of the white space character that \<open>s\<close> starts with, or ends with;
  \<open>0\<close> if there is none.
\<close>

definition leadingSpace :: "string \<Rightarrow> nat" where
  "leadingSpace s = (case find (startsWith s) whiteSpace of None \<Rightarrow> 0 | Some w \<Rightarrow> length w)"

definition trailingSpace :: "string \<Rightarrow> nat" where
  "trailingSpace s = (case find (endsWith s) whiteSpace of None \<Rightarrow> 0 | Some w \<Rightarrow> length w)"

text \<open>\<open>s.trimStart()\<close>, \<open>s.trimEnd()\<close> and \<open>s.trim()\<close>.\<close>

function trimStart :: "string \<Rightarrow> string" where
  "trimStart s = (if leadingSpace s = 0 then s else trimStart (drop (leadingSpace s) s))"
  by pat_completeness auto

termination
proof (relation "measure length")
  fix s :: string
  assume a: "leadingSpace s \<noteq> 0"
  have "leadingSpace [] = 0"
    by (simp add: leadingSpace_def startsWith_def whiteSpace_def)
  with a have "s \<noteq> []" by auto
  with a show "(drop (leadingSpace s) s, s) \<in> measure length" by simp
qed simp

function trimEnd :: "string \<Rightarrow> string" where
  "trimEnd s = (if trailingSpace s = 0 then s else trimEnd (take (length s - trailingSpace s) s))"
  by pat_completeness auto

termination
proof (relation "measure length")
  fix s :: string
  assume a: "trailingSpace s \<noteq> 0"
  have "trailingSpace [] = 0"
    by (simp add: trailingSpace_def endsWith_def whiteSpace_def)
  with a have "s \<noteq> []" by auto
  with a show "(take (length s - trailingSpace s) s, s) \<in> measure length" by simp
qed simp

declare trimStart.simps [simp del] trimEnd.simps [simp del]

definition trim :: "string \<Rightarrow> string" where
  "trim s = trimEnd (trimStart s)"

definition digit_char :: "nat \<Rightarrow> char" where
  "digit_char d = char_of (48 + d)"

text \<open>The decimal digits of a natural number, without leading zeros (\<open>0\<close> is \<open>''0''\<close>).\<close>

fun decimal :: "nat \<Rightarrow> string" where
  "decimal n = (if n < 10 then [digit_char n] else decimal (n div 10) @ [digit_char (n mod 10)])"

declare decimal.simps [simp del]

definition is_digit :: "char \<Rightarrow> bool" where
  "is_digit c = (48 \<le> (of_char c :: nat) \<and> (of_char c :: nat) \<le> 57)"

definition digit_val :: "char \<Rightarrow> nat" where
  "digit_val c = of_char c - 48"

definition digits_val :: "string \<Rightarrow> nat" where
  "digits_val ds = foldl (\<lambda>a c. a * 10 + digit_val c) 0 ds"

definition is_integral :: "rat \<Rightarrow> bool" where
  "is_integral q = (of_int \<lfloor>q\<rfloor> = q)"

text \<open>
  \<open>String(x)\<close>, the conversion behind a template literal and \<open>x.toString()\<close>. For the special
  values and for integers below \<open>10^21\<close> in magnitude the text is fixed by the language. For
  every other number JavaScript prints the shortest decimal that reads back as the same
  double, which depends on the binary representation: that part is the parameter
  \<open>shortest\<close>.
\<close>

definition numberToString :: "(rat \<Rightarrow> string) \<Rightarrow> jsnum \<Rightarrow> string" where
  "numberToString shortest x =
     (case x of
        NaN \<Rightarrow> ''NaN''
      | PosInf \<Rightarrow> ''Infinity''
      | NegInf \<Rightarrow> ''-Infinity''
      | Fin q \<Rightarrow>
          if is_integral q \<and> \<bar>q\<bar> < 10 ^ 21
          then (if q < 0 then ''-'' else []) @ decimal (nat \<bar>\<lfloor>q\<rfloor>\<bar>)
          else shortest q)"

text \<open>
  \<open>x.toFixed(f)\<close>, after Number.prototype.toFixed of ECMAScript: a value that is not finite
  prints as \<open>String(x)\<close>; a magnitude of \<open>10^21\<close> or more prints as \<open>String(x)\<close> too;
  otherwise \<open>n\<close> is the integer with \<open>n / 10^f\<close> closest to the magnitude (the larger one
  on a tie), printed with \<open>f\<close> digits after the point, padded with zeros on the left.
\<close>

definition toFixed :: "(rat \<Rightarrow> string) \<Rightarrow> nat \<Rightarrow> jsnum \<Rightarrow> string" where
  "toFixed shortest f x =
     (case x of
        NaN \<Rightarrow> ''NaN''
      | PosInf \<Rightarrow> ''Infinity''
      | NegInf \<Rightarrow> ''-Infinity''
      | Fin q \<Rightarrow>
          (let s = (if q < 0 then ''-'' else []); a = \<bar>q\<bar> in
           if 10 ^ 21 \<le> a then s @ numberToString shortest (Fin a)
           else
             (let n = nat \<lfloor>a * 10 ^ f + 1 / 2\<rfloor>; m = decimal n in
              if f = 0 then s @ m
              else
                (let m' = (if length m \<le> f
                           then replicate (f + 1 - length m) (CHR ''0'') @ m else m);
                     k = length m'
                 in s @ take (k - f) m' @ ''.'' @ drop (k - f) m'))))"

fun strip_sign :: "string \<Rightarrow> bool \<times> string" where
  "strip_sign [] = (False, [])"
| "strip_sign (c # cs) =
     (if c = CHR ''-'' then (True, cs) else if c = CHR ''+'' then (False, cs) else (False, c # cs))"

definition parse_exponent :: "string \<Rightarrow> int" where
  "parse_exponent r =
     (case r of
        [] \<Rightarrow> 0
      | c # cs \<Rightarrow>
          if c = CHR ''e'' \<or> c = CHR ''E''
          then (let (neg, ds) = strip_sign cs; e = takeWhile is_digit ds
                in if e = [] then 0 else if neg then - int (digits_val e) else int (digits_val e))
          else 0)"

definition scale10 :: "rat \<Rightarrow> int \<Rightarrow> rat" where
  "scale10 m e = (if 0 \<le> e then m * 10 ^ nat e else m / 10 ^ nat (- e))"

text \<open>
  The mathematical value that \<open>parseFloat(str)\<close> reads, before it is rounded to a double:
  leading white space is skipped, then the longest prefix that is a decimal literal is read
  (an optional sign, then \<open>Infinity\<close> or digits with an optional fraction and an optional
  exponent); the rest of the string is ignored, and the value is \<open>NaN\<close> when there is no
  such prefix.
\<close>

definition literalValue :: "string \<Rightarrow> jsnum" where
  "literalValue str =
     (let (neg, s) = strip_sign (trimStart str) in
      if take 8 s = ''Infinity'' then (if neg then NegInf else PosInf)
      else
        (let ip = takeWhile is_digit s;
             r = dropWhile is_digit s;
             (fp, r') = (case r of
                           [] \<Rightarrow> ([], [])
                         | c # cs \<Rightarrow> if c = CHR ''.''
                                     then (takeWhile is_digit cs, dropWhile is_digit cs)
                                     else ([], r))
         in if ip = [] \<and> fp = [] then NaN
            else
              (let m = of_nat (digits_val ip) + of_nat (digits_val fp) / 10 ^ length fp;
                   v = scale10 m (parse_exponent r')
               in Fin (if neg then - v else v))))"

text \<open>\<open>parseFloat(str)\<close>: the Number value for that mathematical value.\<close>

definition parseFloat :: "string \<Rightarrow> jsnum" where
  "parseFloat str = (case literalValue str of Fin v \<Rightarrow> num v | x \<Rightarrow> x)"

section \<open>Data model (types.ts)\<close>

text \<open>The field \<open>ozPerGal: string | number\<close> of a chemical.\<close>

datatype ratio = RatioText string | RatioNum jsnum

record Chemical =
  name :: string
  totalOz :: jsnum
  ozPerGal :: ratio

record WeatherConditions =
  wc_weather :: string
  wc_temperature :: jsnum
  wc_windDirection :: string
  wc_windSpeed :: jsnum

text \<open>
  A Firestore \<open>Timestamp\<close> is kept abstract as a number of seconds; a document whose server
  timestamp is still pending has \<open>null\<close> (\<open>None\<close>). The field \<open>weatherConditions\<close> of a
  document is a conditions object or the empty object \<open>{}\<close> that refills carry (\<open>None\<close>).
  The fields of a log entry that share their name with a piece of React state carry the
  prefix \<open>log_\<close>, those of the conditions object the prefix \<open>wc_\<close>.
\<close>

type_synonym Timestamp = int

record LogEntry =
  docId :: string
  roadName :: string
  gallonsUsed :: jsnum
  log_gallonsLeft :: jsnum
  initialTankVolume :: jsnum
  log_chemicalMix :: "Chemical list"
  weatherConditions :: "WeatherConditions option"
  timestamp :: "Timestamp option"

section \<open>Application state (App.tsx)\<close>

text \<open>
  The React state of the component \<open>App\<close> that the ledger code reads or writes, together
  with the Firestore collection \<open>gallon_logs\<close> of the signed-in user (\<open>firestore\<close>, in the
  ascending timestamp order of the query in the history listener). \<open>db\<close> tells whether the
  Firestore handle is set.
\<close>

record app_state =
  firestore :: "LogEntry list"
  db :: bool
  userId :: "string option"
  isAuthReady :: bool
  logs :: "LogEntry list"
  startingGallons :: jsnum
  gallonsUsedOnRoad :: jsnum
  gallonsLeft :: jsnum
  gallonsToRefill :: jsnum
  chemicalMix :: "Chemical list"
  currentChemicalName :: string
  currentChemicalTotalOz :: jsnum
  selectedRoad :: string
  weather :: string
  temperature :: jsnum
  windDirection :: string
  windSpeed :: jsnum

text \<open>The initial values of the \<open>useState\<close> calls, with an empty collection.\<close>

definition initialState :: app_state where
  "initialState =
     \<lparr>firestore = [], db = False, userId = None, isAuthReady = False, logs = [],
      startingGallons = Fin 600, gallonsUsedOnRoad = Fin 0, gallonsLeft = Fin 600,
      gallonsToRefill = Fin 0, chemicalMix = [], currentChemicalName = [],
      currentChemicalTotalOz = Fin 0, selectedRoad = [], weather = [],
      temperature = Fin 70, windDirection = ''South West'', windSpeed = Fin 5\<rparr>"

text \<open>The state once the initialisation effect has set \<open>db\<close>, \<open>userId\<close> and \<open>isAuthReady\<close>.\<close>

definition signedIn :: "string \<Rightarrow> app_state \<Rightarrow> app_state" where
  "signedIn uid st = st\<lparr>db := True, userId := Some uid, isAuthReady := True\<rparr>"

text \<open>
  What an operation reports through \<open>updateStatus\<close>, one constructor per message:
  \<^item> \<open>EmptyRoad\<close>: 'Please select a Road Name.'
  \<^item> \<open>NonPositiveVolume\<close>: 'Please enter a valid amount of Gallons Used.' and
    'Please enter a positive amount of gallons to add.'
  \<^item> \<open>InsufficientInventory\<close>: 'Gallons Used (..) exceeds Gallons Left (..). Please refill.'
  \<^item> \<open>EmptyChemicalMix\<close>: 'Please add at least one chemical to the mix before logging.'
  \<^item> \<open>IncompleteConditions\<close>: 'Please complete all Environmental Conditions fields.'
  \<^item> \<open>TankFull\<close>: 'Could not refill: Tank is already full or amount added is too small.'
  \<^item> \<open>NotReady\<close>: 'System is still initializing. Please wait.'
  \<^item> \<open>WriteFailed\<close>: 'ERROR: Could not save log to database.' and
    'ERROR: Could not save refill log to database.' (\<open>addDoc\<close> threw)
  \<^item> \<open>InvalidChemical\<close>: 'Please enter a valid chemical name and positive total ounces.'
\<close>

datatype error =
    EmptyRoad | NonPositiveVolume | InsufficientInventory | EmptyChemicalMix
  | IncompleteConditions | TankFull | NotReady | WriteFailed | InvalidChemical

text \<open>
  The result of a handler: a failure, 'Logged .. gallons for ..', or 'Refilled tank by ..
  gallons' with the flag telling whether the message says 'capped from ..'.
\<close>

datatype outcome = Failed error | Logged | Refilled bool | ChemicalAdded

text \<open>
  What the store answers to \<open>addDoc\<close>: whether the write is accepted (otherwise \<open>addDoc\<close>
  throws), the id it gives the document and the value of \<open>serverTimestamp()\<close>.
\<close>

record reply =
  accepted :: bool
  newDocId :: string
  serverTime :: "Timestamp option"

text \<open>The guard \<open>!isAuthReady || !db || !userId\<close>.\<close>

definition notReady :: "app_state \<Rightarrow> bool" where
  "notReady st =
     (\<not> isAuthReady st \<or> \<not> db st \<or> (case userId st of None \<Rightarrow> True | Some u \<Rightarrow> u = []))"

subsection \<open>Chemical mix\<close>

definition calculateOzPerGal :: "(rat \<Rightarrow> string) \<Rightarrow> jsnum \<Rightarrow> jsnum \<Rightarrow> ratio" where
  "calculateOzPerGal sh totalOzArg tankVolume =
     (if js_gt tankVolume (Fin 0) then RatioText (toFixed sh 4 (js_div totalOzArg tankVolume))
      else RatioNum (Fin 0))"

text \<open>
  \<open>parseFloat(n.toString())\<close> on a number \<open>n\<close> gives \<open>n\<close> back (the text of a number reads
  back as that number), so \<open>totalOzValue\<close> is the state's \<open>totalOz\<close>.
\<close>

definition handleChemicalAdd :: "(rat \<Rightarrow> string) \<Rightarrow> app_state \<Rightarrow> outcome \<times> app_state" where
  "handleChemicalAdd sh st =
     (let totalOzValue = currentChemicalTotalOz st in
      if currentChemicalName st = [] \<or> isNaN totalOzValue \<or> js_le totalOzValue (Fin 0)
      then (Failed InvalidChemical, st)
      else
        (let newChemical =
               \<lparr>name = currentChemicalName st, totalOz = totalOzValue,
                ozPerGal = calculateOzPerGal sh totalOzValue (startingGallons st)\<rparr>
         in (ChemicalAdded,
             st\<lparr>chemicalMix := chemicalMix st @ [newChemical],
                currentChemicalName := [], currentChemicalTotalOz := Fin 0\<rparr>)))"

text \<open>The body of the effect with dependency \<open>[startingGallons]\<close>.\<close>

definition chemicalMixEffect :: "(rat \<Rightarrow> string) \<Rightarrow> app_state \<Rightarrow> app_state" where
  "chemicalMixEffect sh st =
     st\<lparr>chemicalMix :=
          map (\<lambda>chem. chem\<lparr>ozPerGal := calculateOzPerGal sh (totalOz chem) (startingGallons st)\<rparr>)
            (chemicalMix st)\<rparr>"

text \<open>React runs that effect after a render in which \<open>startingGallons\<close> differs from before.\<close>

definition afterRender :: "(rat \<Rightarrow> string) \<Rightarrow> jsnum \<Rightarrow> app_state \<Rightarrow> app_state" where
  "afterRender sh previousStartingGallons st =
     (if startingGallons st \<noteq> previousStartingGallons then chemicalMixEffect sh st else st)"

text \<open>
  The \<open>onChange\<close> handler of the 'Total Capacity' input, given \<open>parseFloat(e.target.value)\<close>,
  followed by the render it causes.
\<close>

definition setCapacity :: "(rat \<Rightarrow> string) \<Rightarrow> jsnum \<Rightarrow> app_state \<Rightarrow> app_state" where
  "setCapacity sh parsed st =
     (let val = js_or parsed (Fin 1)
      in afterRender sh (startingGallons st)
           (st\<lparr>startingGallons := val, gallonsLeft := js_min val (gallonsLeft st)\<rparr>))"

subsection \<open>History listener and derived conditions\<close>

definition hasConditions :: "LogEntry \<Rightarrow> bool" where
  "hasConditions entry = (case weatherConditions entry of None \<Rightarrow> False | Some c \<Rightarrow> wc_weather c \<noteq> [])"

text \<open>The value of the memo \<open>lastAppliedConditions\<close>, a function of \<open>logs\<close> (newest first).\<close>

definition lastAppliedConditions :: "LogEntry list \<Rightarrow> WeatherConditions option" where
  "lastAppliedConditions ls =
     (case find (\<lambda>entry. roadName entry \<noteq> ''TANK REFILL'' \<and> hasConditions entry) ls of
        None \<Rightarrow> None
      | Some lastAppLog \<Rightarrow> weatherConditions lastAppLog)"

text \<open>The setters that the same memo calls on the conditions form when it finds an entry.\<close>

definition syncConditions :: "app_state \<Rightarrow> app_state" where
  "syncConditions st =
     (case lastAppliedConditions (logs st) of
        None \<Rightarrow> st
      | Some c \<Rightarrow>
          st\<lparr>weather := wc_weather c,
             temperature := js_or (wc_temperature c) (Fin 70),
             windDirection := (if wc_windDirection c = [] then ''South West'' else wc_windDirection c),
             windSpeed := js_or (wc_windSpeed c) (Fin 5)\<rparr>)"

text \<open>
  The callback of \<open>onSnapshot\<close>: it receives the whole collection in ascending order, keeps
  it newest first, and takes \<open>gallonsLeft\<close> and \<open>startingGallons\<close> from the last document.
\<close>

definition onSnapshot :: "app_state \<Rightarrow> app_state" where
  "onSnapshot st =
     (let fetchedLogs = firestore st in
      st\<lparr>logs := rev fetchedLogs,
         gallonsLeft := (if fetchedLogs = [] then startingGallons st
                         else log_gallonsLeft (last fetchedLogs)),
         startingGallons := (if fetchedLogs = [] then startingGallons st
                             else initialTankVolume (last fetchedLogs))\<rparr>)"

text \<open>A notification of the store, with the render that follows it.\<close>

definition snapshot :: "(rat \<Rightarrow> string) \<Rightarrow> app_state \<Rightarrow> app_state" where
  "snapshot sh st = syncConditions (afterRender sh (startingGallons st) (onSnapshot st))"

text \<open>
  The listener is set up by an effect with the dependencies
  \<open>[db, userId, startingGallons, updateStatus]\<close>, which returns at once unless \<open>db\<close> and
  \<open>userId\<close> are set. After a render in which \<open>startingGallons\<close> differs from before, React
  runs the effect again: the listener is unsubscribed and subscribed anew, and the new
  subscription is notified of the collection as it stands.
\<close>

definition subscribed :: "app_state \<Rightarrow> bool" where
  "subscribed st = (db st \<and> (case userId st of None \<Rightarrow> False | Some u \<Rightarrow> u \<noteq> []))"

definition resubscribe :: "(rat \<Rightarrow> string) \<Rightarrow> jsnum \<Rightarrow> app_state \<Rightarrow> app_state" where
  "resubscribe sh previousStartingGallons st =
     (if startingGallons st \<noteq> previousStartingGallons \<and> subscribed st then snapshot sh st else st)"

text \<open>
  An edit of the 'Total Capacity' input with all that follows from it: the handler and its
  render (\<open>setCapacity\<close>), the notification of the listener subscribed anew, and, when that
  notification changes \<open>startingGallons\<close> once more, the notification of the listener
  subscribed anew after it. Nothing changes after that (lemma \<open>editCapacity_settled\<close>).
\<close>

definition editCapacity :: "(rat \<Rightarrow> string) \<Rightarrow> jsnum \<Rightarrow> app_state \<Rightarrow> app_state" where
  "editCapacity sh parsed st =
     (let st1 = setCapacity sh parsed st;
          st2 = resubscribe sh (startingGallons st) st1
      in resubscribe sh (startingGallons st1) st2)"

subsection \<open>Refill and application\<close>

definition performRefill ::
  "(rat \<Rightarrow> string) \<Rightarrow> reply \<Rightarrow> jsnum \<Rightarrow> app_state \<Rightarrow> outcome \<times> app_state" where
  "performRefill sh rp gallonsAdded st =
     (if notReady st then (Failed NotReady, st)
      else
        (let currentTotal = js_add (gallonsLeft st) gallonsAdded;
             newGallonsLeft = js_min (startingGallons st) currentTotal;
             actualAdded = js_sub newGallonsLeft (gallonsLeft st)
         in if js_le actualAdded (num (1 / 100)) then (Failed TankFull, st)
            else if \<not> accepted rp then (Failed WriteFailed, st)
            else
              (Refilled (js_lt newGallonsLeft currentTotal),
               st\<lparr>firestore := firestore st @
                     [\<lparr>docId = newDocId rp,
                       roadName = ''TANK REFILL'',
                       gallonsUsed = js_neg actualAdded,
                       log_gallonsLeft = parseFloat (toFixed sh 2 newGallonsLeft),
                       initialTankVolume = startingGallons st,
                       log_chemicalMix = [],
                       weatherConditions = None,
                       timestamp = serverTime rp\<rparr>],
                  gallonsToRefill := Fin 0\<rparr>)))"

definition handleRefill :: "(rat \<Rightarrow> string) \<Rightarrow> reply \<Rightarrow> app_state \<Rightarrow> outcome \<times> app_state" where
  "handleRefill sh rp st =
     (let gallons = gallonsToRefill st in
      if isNaN gallons \<or> js_le gallons (Fin 0) then (Failed NonPositiveVolume, st)
      else performRefill sh rp gallons st)"

definition logApplication :: "(rat \<Rightarrow> string) \<Rightarrow> reply \<Rightarrow> app_state \<Rightarrow> outcome \<times> app_state" where
  "logApplication sh rp st =
     (let gallonsUsedNow = gallonsUsedOnRoad st in
      if selectedRoad st = [] \<or> trim (selectedRoad st) = [] then (Failed EmptyRoad, st)
      else if isNaN gallonsUsedNow \<or> js_le gallonsUsedNow (Fin 0) then (Failed NonPositiveVolume, st)
      else if js_gt gallonsUsedNow (gallonsLeft st) then (Failed InsufficientInventory, st)
      else if length (chemicalMix st) = 0 then (Failed EmptyChemicalMix, st)
      else if trim (weather st) = [] \<or> \<not> truthy (temperature st) \<or> windDirection st = []
              \<or> \<not> truthy (windSpeed st)
      then (Failed IncompleteConditions, st)
      else if notReady st then (Failed NotReady, st)
      else
        (let newGallonsLeft = js_sub (gallonsLeft st) gallonsUsedNow
         in if \<not> accepted rp then (Failed WriteFailed, st)
            else
              (Logged,
               st\<lparr>firestore := firestore st @
                     [\<lparr>docId = newDocId rp,
                       roadName = selectedRoad st,
                       gallonsUsed = parseFloat (toFixed sh 2 gallonsUsedNow),
                       log_gallonsLeft = parseFloat (toFixed sh 2 newGallonsLeft),
                       initialTankVolume = startingGallons st,
                       log_chemicalMix = chemicalMix st,
                       weatherConditions =
                         Some \<lparr>wc_weather = trim (weather st),
                               wc_temperature = temperature st,
                               wc_windDirection = windDirection st,
                               wc_windSpeed = windSpeed st\<rparr>,
                       timestamp = serverTime rp\<rparr>],
                  gallonsUsedOnRoad := Fin 0,
                  selectedRoad := []\<rparr>)))"

subsection \<open>Sequences of calls\<close>

text \<open>
  A call of the ledger as the operator makes it: the form is filled in (road, gallons used,
  the staged mix and the conditions, or the refill amount) and the button is clicked. A
  call that appended a document is followed by the store's notification. (When that
  notification changes \<open>startingGallons\<close>, the listener is subscribed anew and notified
  again, which changes nothing: lemma \<open>snapshot_idem\<close>.)
\<close>

datatype call =
    LogApplication string jsnum "Chemical list" string jsnum string jsnum
  | LogRefill jsnum

fun fill :: "call \<Rightarrow> app_state \<Rightarrow> app_state" where
  "fill (LogApplication road gallons mix w t wd ws) st =
     st\<lparr>selectedRoad := road, gallonsUsedOnRoad := gallons, chemicalMix := mix,
        weather := w, temperature := t, windDirection := wd, windSpeed := ws\<rparr>"
| "fill (LogRefill gallons) st = st\<lparr>gallonsToRefill := gallons\<rparr>"

fun click :: "(rat \<Rightarrow> string) \<Rightarrow> reply \<Rightarrow> call \<Rightarrow> app_state \<Rightarrow> outcome \<times> app_state" where
  "click sh rp (LogApplication road gallons mix w t wd ws) st = logApplication sh rp st"
| "click sh rp (LogRefill gallons) st = handleRefill sh rp st"

definition perform :: "(rat \<Rightarrow> string) \<Rightarrow> call \<times> reply \<Rightarrow> app_state \<Rightarrow> outcome \<times> app_state" where
  "perform sh cr st =
     (case click sh (snd cr) (fst cr) (fill (fst cr) st) of
        (Failed e, st') \<Rightarrow> (Failed e, st')
      | (out, st') \<Rightarrow> (out, snapshot sh st'))"

fun run :: "(rat \<Rightarrow> string) \<Rightarrow> (call \<times> reply) list \<Rightarrow> app_state \<Rightarrow> app_state" where
  "run sh [] st = st"
| "run sh (cr # crs) st = run sh crs (snd (perform sh cr st))"

section \<open>Report (generateReportContent)\<close>

text \<open>
  \<open>generateReportContent\<close> reads the clock twice (\<open>new Date().toLocaleDateString()\<close> and
  \<open>new Date().toLocaleTimeString()\<close>); the two texts it gets are the record \<open>clock\<close>. The
  locale rendering of a document's timestamp, \<open>timestamp.toDate().toLocaleString()\<close>, is
  the parameter \<open>toLocale\<close>.
\<close>

record clock =
  dateText :: string
  timeText :: string

definition applicationLogs :: "LogEntry list \<Rightarrow> LogEntry list" where
  "applicationLogs ls = filter (\<lambda>entry. roadName entry \<noteq> ''TANK REFILL'') ls"

definition refillLogs :: "LogEntry list \<Rightarrow> LogEntry list" where
  "refillLogs ls = filter (\<lambda>entry. roadName entry = ''TANK REFILL'') ls"

definition dashes :: string where
  "dashes = ''--------------------------------------------\<newline>''"

definition reportHeader ::
  "(rat \<Rightarrow> string) \<Rightarrow> clock \<Rightarrow> string option \<Rightarrow> jsnum \<Rightarrow> nat \<Rightarrow> nat \<Rightarrow> string" where
  "reportHeader sh clk uid capacity nApplications nRefills =
     ''============================================\<newline>'' @
     ''APPLICATION HISTORY REPORT\<newline>'' @
     ''============================================\<newline>'' @
     ''Generated: '' @ dateText clk @ '' '' @ timeText clk @ ''\<newline>'' @
     ''User ID: '' @ (case uid of None \<Rightarrow> ''null'' | Some u \<Rightarrow> u) @ ''\<newline>'' @
     ''Total Tank Capacity: '' @ numberToString sh capacity @ '' gallons\<newline>'' @
     ''Total Road Applications: '' @ decimal nApplications @ ''\<newline>'' @
     ''Total Refills: '' @ decimal nRefills @ ''\<newline>'' @
     ''============================================\<newline>\<newline>''"

text \<open>The degree sign of the temperature line is the two bytes of its UTF-8 encoding.\<close>

definition conditionsSection :: "(rat \<Rightarrow> string) \<Rightarrow> WeatherConditions option \<Rightarrow> string" where
  "conditionsSection sh conditions =
     (case conditions of
        Some c \<Rightarrow>
          ''>>> ENVIRONMENTAL CONDITIONS (Last Logged) <<<\<newline>'' @
          ''Weather: '' @ wc_weather c @ ''\<newline>'' @
          ''Temperature: '' @ numberToString sh (wc_temperature c) @ [CHR 0xC2, CHR 0xB0] @ ''F\<newline>'' @
          ''Wind: '' @ numberToString sh (wc_windSpeed c) @ '' MPH from the '' @ wc_windDirection c
            @ ''\<newline>'' @
          dashes @ ''\<newline>''
      | None \<Rightarrow>
          ''>>> ENVIRONMENTAL CONDITIONS: N/A\<newline>'' @
          dashes @ ''\<newline>'')"

definition timestampText :: "(Timestamp \<Rightarrow> string) \<Rightarrow> Timestamp option \<Rightarrow> string" where
  "timestampText toLocale ts = (case ts of None \<Rightarrow> ''N/A'' | Some t \<Rightarrow> toLocale t)"

text \<open>
  \<open>parseFloat(chem.ozPerGal)\<close>: a stored text is parsed; a stored number is converted to
  text and parsed, which gives the number back.
\<close>

fun ratioNumber :: "ratio \<Rightarrow> jsnum" where
  "ratioNumber (RatioText s) = parseFloat s"
| "ratioNumber (RatioNum n) = n"

definition ozCalculated :: "LogEntry \<Rightarrow> Chemical \<Rightarrow> jsnum" where
  "ozCalculated entry chem =
     (let ozPerGalNum = js_or (ratioNumber (ozPerGal chem)) (Fin 0);
          gallonsUsedNum = js_or (gallonsUsed entry) (Fin 0)
      in js_mul gallonsUsedNum ozPerGalNum)"

definition chemicalLine :: "(rat \<Rightarrow> string) \<Rightarrow> LogEntry \<Rightarrow> Chemical \<Rightarrow> string" where
  "chemicalLine sh entry chem =
     ''    - '' @ name chem @ '': '' @ toFixed sh 2 (ozCalculated entry chem) @ '' oz applied\<newline>''"

text \<open>The body of the first \<open>forEach\<close>; \<open>number\<close> is \<open>applicationLogs.length - index\<close>.\<close>

definition applicationEntry ::
  "(rat \<Rightarrow> string) \<Rightarrow> (Timestamp \<Rightarrow> string) \<Rightarrow> nat \<Rightarrow> LogEntry \<Rightarrow> string" where
  "applicationEntry sh toLocale number entry =
     ''ENTRY #'' @ decimal number @ '' (Logged: '' @ timestampText toLocale (timestamp entry) @ '')\<newline>'' @
     ''Road Name: '' @ roadName entry @ ''\<newline>'' @
     ''Gallons Used: '' @ toFixed sh 2 (gallonsUsed entry) @ '' gal\<newline>'' @
     ''Gallons Left: '' @ toFixed sh 2 (log_gallonsLeft entry) @ '' gal\<newline>'' @
     ''  Chemical Mix:\<newline>'' @
     concat (map (chemicalLine sh entry) (log_chemicalMix entry)) @
     dashes"

text \<open>The body of the second \<open>forEach\<close>; \<open>number\<close> is \<open>refillLogs.length - index\<close>.\<close>

definition refillEntry ::
  "(rat \<Rightarrow> string) \<Rightarrow> (Timestamp \<Rightarrow> string) \<Rightarrow> nat \<Rightarrow> LogEntry \<Rightarrow> string" where
  "refillEntry sh toLocale number entry =
     ''REFILL #'' @ decimal number @ '' (Logged: '' @ timestampText toLocale (timestamp entry) @ '')\<newline>'' @
     ''Gallons ADDED: '' @ toFixed sh 2 (js_abs (gallonsUsed entry)) @ '' gal\<newline>'' @
     ''Gallons Left: '' @ toFixed sh 2 (log_gallonsLeft entry) @ '' gal\<newline>'' @
     dashes"

definition applicationSection ::
  "(rat \<Rightarrow> string) \<Rightarrow> (Timestamp \<Rightarrow> string) \<Rightarrow> LogEntry list \<Rightarrow> string" where
  "applicationSection sh toLocale apps =
     ''>>> ROAD APPLICATION LOGS <<<\<newline>'' @ dashes @
     (if length apps = 0 then ''No road application data to report.\<newline>\<newline>''
      else concat (map (\<lambda>(index, entry). applicationEntry sh toLocale (length apps - index) entry)
                     (enumerate 0 apps)))"

definition refillSection ::
  "(rat \<Rightarrow> string) \<Rightarrow> (Timestamp \<Rightarrow> string) \<Rightarrow> LogEntry list \<Rightarrow> string" where
  "refillSection sh toLocale refills =
     ''\<newline>>>> TANK REFILL LOGS <<<\<newline>'' @ dashes @
     (if length refills = 0 then ''No tank refill data to report.\<newline>\<newline>''
      else concat (map (\<lambda>(index, entry). refillEntry sh toLocale (length refills - index) entry)
                     (enumerate 0 refills)))"

definition generateReportContent ::
  "(rat \<Rightarrow> string) \<Rightarrow> (Timestamp \<Rightarrow> string) \<Rightarrow> clock \<Rightarrow> app_state \<Rightarrow> string" where
  "generateReportContent sh toLocale clk st =
     reportHeader sh clk (userId st) (startingGallons st)
       (length (applicationLogs (logs st))) (length (refillLogs (logs st))) @
     conditionsSection sh (lastAppliedConditions (logs st)) @
     applicationSection sh toLocale (applicationLogs (logs st)) @
     refillSection sh toLocale (refillLogs (logs st))"

text \<open>The rows of the history table: \<open>logs.filter(l => l.roadName !== "TANK REFILL")\<close>.\<close>

definition historyRows :: "app_state \<Rightarrow> LogEntry list" where
  "historyRows st = filter (\<lambda>l. roadName l \<noteq> ''TANK REFILL'') (logs st)"

section \<open>Auxiliary notions for the statements\<close>

text \<open>
  The rational with \<open>f\<close> decimals closest to \<open>q\<close>, the tie going away from zero: the value
  that \<open>toFixed\<close> prints.
\<close>

definition roundTo :: "nat \<Rightarrow> rat \<Rightarrow> rat" where
  "roundTo f q =
     (let r = of_nat (nat \<lfloor>\<bar>q\<bar> * 10 ^ f + 1 / 2\<rfloor>) / 10 ^ f in if q < 0 then - r else r)"

text \<open>The locals \<open>newGallonsLeft\<close> and \<open>actualAdded\<close> of \<open>performRefill\<close>.\<close>

definition refillTarget :: "app_state \<Rightarrow> jsnum \<Rightarrow> jsnum" where
  "refillTarget st gallonsAdded = js_min (startingGallons st) (js_add (gallonsLeft st) gallonsAdded)"

definition actualAdded :: "app_state \<Rightarrow> jsnum \<Rightarrow> jsnum" where
  "actualAdded st gallonsAdded = js_sub (refillTarget st gallonsAdded) (gallonsLeft st)"

text \<open>
  A text in fixed notation with \<open>f\<close> decimals: an optional minus sign, at least one digit,
  a point, and exactly \<open>f\<close> digits.
\<close>

definition isFixedText :: "nat \<Rightarrow> string \<Rightarrow> bool" where
  "isFixedText f s =
     (let u = (case s of [] \<Rightarrow> [] | c # cs \<Rightarrow> if c = CHR ''-'' then cs else s);
          ip = takeWhile is_digit u;
          r = dropWhile is_digit u
      in ip \<noteq> [] \<and>
         (case r of [] \<Rightarrow> False
          | c # fp \<Rightarrow> c = CHR ''.'' \<and> length fp = f \<and> list_all is_digit fp))"

section \<open>Sample inputs\<close>

text \<open>Concrete inputs at which the theorems below are instantiated.\<close>

definition sampleReply :: "string \<Rightarrow> reply" where
  "sampleReply i = \<lparr>accepted = True, newDocId = i, serverTime = Some 0\<rparr>"

definition sampleMix :: "Chemical list" where
  "sampleMix = [\<lparr>name = ''Milestone QT'', totalOz = Fin 120, ozPerGal = RatioText ''0.2000''\<rparr>]"

text \<open>An application of 50 gallons on road Elk, then a refill of 20 gallons.\<close>

definition sampleCalls :: "(call \<times> reply) list" where
  "sampleCalls =
     [(LogApplication ''Elk'' (Fin 50) sampleMix ''Clear'' (Fin 70) ''North'' (Fin 5), sampleReply ''a''),
      (LogRefill (Fin 20), sampleReply ''b'')]"

definition sampleShortest :: "rat \<Rightarrow> string" where
  "sampleShortest q = []"

text \<open>
  The state reached from the default state by one application of \<open>u\<close> gallons: the tank
  holds 500 gallons after 100, 580 after 20, and 0.3 after 599.7.
\<close>

definition tankAfter :: "jsnum \<Rightarrow> app_state" where
  "tankAfter u =
     run sampleShortest
       [(LogApplication ''Elk'' u sampleMix ''Clear'' (Fin 70) ''North'' (Fin 5), sampleReply ''a'')]
       (signedIn ''u1'' initialState)"

text \<open>The application form asking for 700 gallons on the given road, the tank holding 600.\<close>

definition overdrawnForm :: "string \<Rightarrow> app_state" where
  "overdrawnForm road =
     fill (LogApplication road (Fin 700) sampleMix ''Clear'' (Fin 70) ''North'' (Fin 5))
       (signedIn ''u1'' initialState)"

text \<open>
  With 500 gallons left: a refill form holding \<open>Infinity\<close>, and the two forms holding the
  same volume \<open>v\<close>, the application being for the given road.
\<close>

definition infiniteRefillForm :: app_state where
  "infiniteRefillForm = fill (LogRefill PosInf) (tankAfter (Fin 100))"

definition volumeForm :: "string \<Rightarrow> jsnum \<Rightarrow> app_state" where
  "volumeForm road v =
     fill (LogRefill v)
       (fill (LogApplication road v sampleMix ''Clear'' (Fin 70) ''North'' (Fin 5))
          (tankAfter (Fin 100)))"

text \<open>
  The application form whose road is the label of refills, otherwise valid, one application
  on road Elk having been logged before.
\<close>

definition sentinelForm :: app_state where
  "sentinelForm =
     fill (LogApplication ''TANK REFILL'' (Fin 50) sampleMix ''Clear'' (Fin 70) ''North'' (Fin 5))
       (tankAfter (Fin 100))"

text \<open>
  A chemical of 120 ounces staged at the default capacity, and the state after an
  application of that mix has been logged.
\<close>

definition stagedState :: app_state where
  "stagedState =
     snd (handleChemicalAdd sampleShortest
       ((signedIn ''u1'' initialState)
          \<lparr>currentChemicalName := ''Milestone QT'', currentChemicalTotalOz := Fin 120\<rparr>))"

definition loggedState :: app_state where
  "loggedState =
     snd (perform sampleShortest
       (LogApplication ''Elk'' (Fin 50) (chemicalMix stagedState) ''Clear'' (Fin 70) ''North'' (Fin 5),
        sampleReply ''a'')
       stagedState)"

text \<open>A logged application of 50 gallons whose chemical was staged at capacity 600.\<close>

definition sampleEntry :: LogEntry where
  "sampleEntry =
     \<lparr>docId = ''a'', roadName = ''Elk'', gallonsUsed = Fin 50, log_gallonsLeft = Fin 550,
      initialTankVolume = Fin 600,
      log_chemicalMix = [\<lparr>name = ''Milestone QT'', totalOz = Fin 120,
                          ozPerGal = calculateOzPerGal sampleShortest (Fin 120) (Fin 600)\<rparr>],
      weatherConditions = Some \<lparr>wc_weather = ''Clear'', wc_temperature = Fin 70,
                                wc_windDirection = ''North'', wc_windSpeed = Fin 5\<rparr>,
      timestamp = Some 0\<rparr>"

section \<open>Facts about rounding to the nearest double\<close>

lemma pow2_neg: "0 \<le> k \<Longrightarrow> (2::rat) powi (- k) = 1 / 2 ^ nat k"
  by (simp add: power_int_minus_divide power_int_nonneg_exp)

lemma expo_bounds:
  assumes "0 < x"
  shows "2 powi expo x \<le> x \<and> x < 2 powi (expo x + 1)"
proof (cases "1 \<le> x")
  case True
  define n where "n = \<lfloor>x\<rfloor>"
  have n: "0 < n" using True by (simp add: n_def)
  note b = bitlen_bounds [OF n]
  have e: "expo x = bitlen n - 1" using True by (simp add: expo_def n_def)
  have bn: "0 < bitlen n" using n bitlen_nonneg [of n] bitlen_eq_zero_iff [of n] by linarith
  have "(2::rat) powi (bitlen n - 1) = of_int (2 ^ nat (bitlen n - 1))"
    using bn by (simp add: power_int_def)
  also have "\<dots> \<le> of_int n" using b by (simp only: of_int_le_iff)
  also have "\<dots> \<le> x" by (simp add: n_def)
  finally have lo: "2 powi expo x \<le> x" by (simp add: e)
  have "n + 1 \<le> 2 ^ nat (bitlen n)" using b by simp
  then have "(of_int (n + 1) :: rat) \<le> of_int (2 ^ nat (bitlen n))" by (simp only: of_int_le_iff)
  moreover have "x < of_int (n + 1)" using floor_correct [of x] by (simp add: n_def)
  ultimately have "x < of_int (2 ^ nat (bitlen n))" by linarith
  also have "\<dots> = 2 powi (bitlen n)" using bn by (simp add: power_int_def)
  finally have "x < 2 powi (expo x + 1)" by (simp add: e)
  with lo show ?thesis by simp
next
  case False
  then have x1: "x < 1" by simp
  define y where "y = 1 / x"
  have y1: "1 < y" using assms x1 by (simp add: y_def)
  define m where "m = \<lceil>y\<rceil> - 1"
  have m: "0 < m" using y1 ceiling_correct [of y] by (simp add: m_def)
  note b = bitlen_bounds [OF m]
  define K where "K = bitlen m"
  have K: "0 < K" using m bitlen_nonneg [of m] bitlen_eq_zero_iff [of m] unfolding K_def by linarith
  have e: "expo x = - K" using False by (simp add: expo_def K_def m_def y_def)
  have "y \<le> of_int (m + 1)" using ceiling_correct [of y] by (simp add: m_def)
  also have "m + 1 \<le> 2 ^ nat K" using b by (simp add: K_def)
  then have "(of_int (m + 1) :: rat) \<le> of_int (2 ^ nat K)" by (simp only: of_int_le_iff)
  finally have yle: "y \<le> 2 ^ nat K" by simp
  have "(of_int (2 ^ nat (K - 1)) :: rat) \<le> of_int m"
    using b by (simp only: of_int_le_iff K_def)
  then have "(2::rat) ^ nat (K - 1) \<le> of_int m" by simp
  moreover have "of_int m < y" using ceiling_correct [of y] by (simp add: m_def)
  ultimately have ygt: "2 ^ nat (K - 1) < y" by (rule le_less_trans)
  have p: "(0::rat) < 2 ^ nat K" "(0::rat) < 2 ^ nat (K - 1)" by simp_all
  have "1 / 2 ^ nat K \<le> x"
    using yle assms p by (simp add: y_def field_simps)
  moreover have "(2::rat) powi (- K) = 1 / 2 ^ nat K"
    using K by (intro pow2_neg) simp
  ultimately have lo: "2 powi expo x \<le> x" by (simp add: e)
  have "x < 1 / 2 ^ nat (K - 1)"
    using ygt assms p by (simp add: y_def field_simps)
  moreover have "(2::rat) powi (- K + 1) = 1 / 2 ^ nat (K - 1)"
  proof -
    have "- K + 1 = - (K - 1)" by simp
    then have "(2::rat) powi (- K + 1) = 2 powi (- (K - 1))" by (simp only:)
    also have "\<dots> = 1 / 2 ^ nat (K - 1)" using K by (intro pow2_neg) simp
    finally show ?thesis .
  qed
  ultimately have "x < 2 powi (expo x + 1)" by (simp add: e)
  with lo show ?thesis by simp
qed

lemma pow2_less_cancel: "(2::rat) powi a < 2 powi b \<Longrightarrow> a < b"
proof (rule ccontr)
  assume l: "(2::rat) powi a < 2 powi b" and "\<not> a < b"
  then have "b \<le> a" by simp
  then have "(2::rat) powi b \<le> 2 powi a" by (intro power_int_increasing) simp_all
  with l show False by simp
qed

lemma expo_unique:
  assumes lo: "2 powi e \<le> x" and hi: "x < 2 powi (e + 1)"
  shows "expo x = e"
proof -
  have x: "0 < x" using lo by (rule less_le_trans [rotated]) simp
  note b = expo_bounds [OF x]
  have "2 powi expo x < (2::rat) powi (e + 1)" using b hi by linarith
  then have a: "expo x < e + 1" by (rule pow2_less_cancel)
  have "(2::rat) powi e < 2 powi (expo x + 1)" using b lo by linarith
  then have "e < expo x + 1" by (rule pow2_less_cancel)
  with a show ?thesis by simp
qed


lemma round_even_of_int: "round_even (of_int k) = k"
  by (simp add: round_even_def)

lemma round_even_cases:
  "round_even r = \<lfloor>r\<rfloor> \<and> r - of_int \<lfloor>r\<rfloor> \<le> 1 / 2 \<or>
   round_even r = \<lfloor>r\<rfloor> + 1 \<and> 1 / 2 \<le> r - of_int \<lfloor>r\<rfloor>"
  by (auto simp add: round_even_def Let_def)

lemma round_even_le: "r \<le> of_int M \<Longrightarrow> round_even r \<le> M"
proof -
  assume a: "r \<le> of_int M"
  then have f: "\<lfloor>r\<rfloor> \<le> M" using floor_correct [of r] by (simp add: floor_le_iff)
  show ?thesis
  proof (cases "\<lfloor>r\<rfloor> = M")
    case True
    then have "r = of_int M" using a floor_correct [of r] by linarith
    then show ?thesis by (simp add: round_even_of_int)
  next
    case False
    with f have "\<lfloor>r\<rfloor> + 1 \<le> M" by simp
    then show ?thesis using round_even_cases [of r] by linarith
  qed
qed

lemma round_even_ge: "of_int M \<le> r \<Longrightarrow> M \<le> round_even r"
proof -
  assume "of_int M \<le> r"
  then have "M \<le> \<lfloor>r\<rfloor>" by (simp add: le_floor_iff)
  then show ?thesis using round_even_cases [of r] by linarith
qed

lemma round_even_error: "\<bar>of_int (round_even r) - r\<bar> \<le> 1 / 2"
  using round_even_cases [of r] floor_correct [of r] by (auto simp add: abs_le_iff) 

lemma ulp_pos: "0 < ulp x"
  by (simp add: ulp_def)

lemma ulp_minus: "ulp (- x) = ulp x"
  by (simp add: ulp_def)

lemma ulp_of_expo:
  "2 powi e \<le> \<bar>x\<bar> \<Longrightarrow> \<bar>x\<bar> < 2 powi (e + 1) \<Longrightarrow> ulp x = 2 powi (max e (- 1022) - 52)"
  by (simp add: ulp_def expo_unique)

lemma fl_zero: "fl 0 = 0"
  by (simp add: fl_def)

lemma fl_minus: "fl (- x) = - fl x"
  by (simp add: fl_def ulp_minus sgn_minus)

lemma fl_pos:
  "0 < x \<Longrightarrow> fl x = of_int (round_even (x / ulp x)) * ulp x"
  by (simp add: fl_def)

lemma fl_nonneg: "0 \<le> x \<Longrightarrow> 0 \<le> fl x"
proof (cases "x = 0")
  case True
  then show ?thesis by (simp add: fl_zero)
next
  case False
  assume "0 \<le> x"
  with False have x: "0 < x" by simp
  have "(of_int 0 :: rat) \<le> x / ulp x" using x ulp_pos [of x] by simp
  then have "0 \<le> round_even (x / ulp x)" by (rule round_even_ge)
  then show ?thesis using ulp_pos [of x] by (simp add: fl_pos [OF x])
qed

lemma fl_nonpos: "x \<le> 0 \<Longrightarrow> fl x \<le> 0"
  using fl_nonneg [of "- x"] by (simp add: fl_minus)

lemma fl_grid_le:
  assumes x: "0 < x" and c: "x \<le> c" and g: "is_integral (c / ulp x)"
  shows "fl x \<le> c"
proof -
  obtain M where M: "c / ulp x = of_int M" using g by (metis is_integral_def)
  have "x / ulp x \<le> of_int M"
    using c ulp_pos [of x] by (simp add: M [symmetric] divide_right_mono)
  then have "round_even (x / ulp x) \<le> M" by (rule round_even_le)
  then have "(of_int (round_even (x / ulp x)) :: rat) \<le> of_int M" by simp
  then have "of_int (round_even (x / ulp x)) * ulp x \<le> of_int M * ulp x"
    using ulp_pos [of x] by (simp add: mult_right_mono)
  also have "of_int M * ulp x = c" using ulp_pos [of x] by (simp add: M [symmetric])
  finally show ?thesis by (simp add: fl_pos [OF x])
qed

lemma fl_grid_ge:
  assumes x: "0 < x" and c: "c \<le> x" and g: "is_integral (c / ulp x)"
  shows "c \<le> fl x"
proof -
  obtain M where M: "c / ulp x = of_int M" using g by (metis is_integral_def)
  have "of_int M \<le> x / ulp x"
    using c ulp_pos [of x] by (simp add: M [symmetric] divide_right_mono)
  then have "M \<le> round_even (x / ulp x)" by (rule round_even_ge)
  then have "(of_int M :: rat) \<le> of_int (round_even (x / ulp x))" by simp
  then have "of_int M * ulp x \<le> of_int (round_even (x / ulp x)) * ulp x"
    using ulp_pos [of x] by (simp add: mult_right_mono)
  moreover have "of_int M * ulp x = c" using ulp_pos [of x] by (simp add: M [symmetric])
  ultimately show ?thesis by (simp add: fl_pos [OF x])
qed

lemma fl_exact:
  assumes g: "is_integral (\<bar>x\<bar> / ulp x)"
  shows "fl x = x"
proof (cases "x = 0")
  case True
  then show ?thesis by (simp add: fl_zero)
next
  case False
  obtain M where M: "\<bar>x\<bar> / ulp x = of_int M" using g by (metis is_integral_def)
  have "of_int M * ulp x = \<bar>x\<bar>" using ulp_pos [of x] by (simp add: M [symmetric])
  then show ?thesis
    using False by (simp add: fl_def M round_even_of_int mult.assoc mult_sgn_abs)
qed

lemma fl_error: "\<bar>fl x - x\<bar> \<le> ulp x / 2"
proof (cases "x = 0")
  case True
  then show ?thesis using ulp_pos [of 0] by (simp add: fl_zero)
next
  case False
  define u where "u = ulp x"
  define n where "n = round_even (\<bar>x\<bar> / u)"
  have u: "0 < u" by (simp add: u_def ulp_pos)
  have "\<bar>of_int n - \<bar>x\<bar> / u\<bar> \<le> 1 / 2" unfolding n_def by (rule round_even_error)
  then have "\<bar>of_int n - \<bar>x\<bar> / u\<bar> * u \<le> (1 / 2) * u"
    using u by (intro mult_right_mono) simp_all
  moreover have "\<bar>of_int n - \<bar>x\<bar> / u\<bar> * u = \<bar>of_int n * u - \<bar>x\<bar>\<bar>"
  proof -
    have "\<bar>of_int n - \<bar>x\<bar> / u\<bar> * u = \<bar>(of_int n - \<bar>x\<bar> / u) * u\<bar>"
      using u by (simp add: abs_mult)
    also have "(of_int n - \<bar>x\<bar> / u) * u = of_int n * u - \<bar>x\<bar>"
      using u by (simp add: algebra_simps)
    finally show ?thesis .
  qed
  ultimately have e: "\<bar>of_int n * u - \<bar>x\<bar>\<bar> \<le> u / 2" by simp
  have "fl x = sgn x * (of_int n * u)"
    using False by (simp add: fl_def n_def u_def mult.assoc)
  moreover have "x = sgn x * \<bar>x\<bar>" by (simp add: mult_sgn_abs)
  ultimately have "fl x - x = sgn x * (of_int n * u - \<bar>x\<bar>)"
    by (simp add: algebra_simps)
  then have "\<bar>fl x - x\<bar> = \<bar>sgn x\<bar> * \<bar>of_int n * u - \<bar>x\<bar>\<bar>"
    by (simp add: abs_mult)
  also have "\<bar>sgn x\<bar> = 1" using False by (simp add: abs_sgn_eq)
  finally show ?thesis using e by (simp add: u_def)
qed


lemma ulp_dyadic:
  assumes x: "x \<noteq> 0" and b: "\<bar>x\<bar> * 2 ^ j < 2 ^ 53" and j: "j \<le> 1074"
  shows "\<exists>k\<ge>j. ulp x = 1 / 2 ^ k"
proof -
  define e where "e = expo \<bar>x\<bar>"
  have ax: "0 < \<bar>x\<bar>" using x by simp
  note eb = expo_bounds [OF ax, folded e_def]
  have "\<bar>x\<bar> < 2 ^ 53 / 2 ^ j" using b by (simp add: field_simps)
  also have "(2::rat) ^ 53 / 2 ^ j = 2 powi (53 - int j)"
    by (simp add: power_int_diff)
  finally have "(2::rat) powi e < 2 powi (53 - int j)" using eb by linarith
  then have e: "e < 53 - int j" by (rule pow2_less_cancel)
  define k where "k = nat (52 - max e (- 1022))"
  have kj: "j \<le> k" using e j by (simp add: k_def)
  have "max e (- 1022) - 52 = - int k" using e by (simp add: k_def)
  then have "ulp x = 2 powi (- int k)" by (simp add: ulp_def e_def)
  also have "\<dots> = 1 / 2 ^ k" using pow2_neg [of "int k"] by simp
  finally show ?thesis using kj by blast
qed

lemma is_integral_of_int: "is_integral (of_int m)"
  by (simp add: is_integral_def)

lemma is_integral_mult: "is_integral a \<Longrightarrow> is_integral b \<Longrightarrow> is_integral (a * b)"
  by (metis is_integral_def is_integral_of_int of_int_mult)

lemma is_integral_abs: "is_integral a \<Longrightarrow> is_integral \<bar>a\<bar>"
  by (metis is_integral_def is_integral_of_int of_int_abs)

lemma is_integral_pow2: "is_integral (2 ^ n)"
  by (metis is_integral_of_int of_int_numeral of_int_power)

lemma fl_dyadic:
  assumes i: "is_integral (x * 2 ^ j)" and b: "\<bar>x\<bar> * 2 ^ j < 2 ^ 53" and j: "j \<le> 1074"
  shows "fl x = x"
proof (cases "x = 0")
  case True
  then show ?thesis by (simp add: fl_zero)
next
  case False
  from ulp_dyadic [OF False b j] obtain k where k: "j \<le> k" "ulp x = 1 / 2 ^ k" by blast
  have "\<bar>x\<bar> / ulp x = \<bar>x\<bar> * 2 ^ k" by (simp add: k)
  also have "\<dots> = \<bar>x\<bar> * 2 ^ j * 2 ^ (k - j)"
    using k(1) by (simp add: power_add [symmetric])
  also have "\<dots> = \<bar>x * 2 ^ j\<bar> * 2 ^ (k - j)" by (simp add: abs_mult)
  finally have "\<bar>x\<bar> / ulp x = \<bar>x * 2 ^ j\<bar> * 2 ^ (k - j)" .
  moreover have "is_integral (\<bar>x * 2 ^ j\<bar> * 2 ^ (k - j))"
    using is_integral_mult [OF is_integral_abs [OF i] is_integral_pow2] .
  ultimately have "is_integral (\<bar>x\<bar> / ulp x)" by simp
  then show ?thesis by (rule fl_exact)
qed

lemma fl_integral: "is_integral x \<Longrightarrow> \<bar>x\<bar> < 2 ^ 53 \<Longrightarrow> fl x = x"
  using fl_dyadic [of x 0] by simp

lemma fl_le_integral:
  assumes x: "0 \<le> x" and c: "x \<le> c" and i: "is_integral c" and b: "c < 2 ^ 53"
  shows "fl x \<le> c"
proof (cases "x = 0")
  case True
  then show ?thesis using x c by (simp add: fl_zero)
next
  case False
  then have x0: "0 < x" using x by simp
  have "\<bar>x\<bar> * 2 ^ 0 < 2 ^ 53" using x c b by simp
  from ulp_dyadic [OF False this] obtain k where k: "ulp x = 1 / 2 ^ k" by auto
  have "c / ulp x = c * 2 ^ k" by (simp add: k)
  moreover have "is_integral (c * 2 ^ k)"
    using i by (intro is_integral_mult is_integral_pow2)
  ultimately have "is_integral (c / ulp x)" by simp
  with x0 c show ?thesis by (rule fl_grid_le)
qed

lemma round_even_near:
  assumes "\<bar>of_int n - r\<bar> < 1 / 2"
  shows "round_even r = n"
proof -
  have a: "\<bar>of_int (round_even r) - r\<bar> \<le> 1 / 2" by (rule round_even_error)
  have "\<bar>(of_int (round_even r) :: rat) - of_int n\<bar> < 1"
    using a assms by linarith
  then have "\<bar>(of_int (round_even r - n) :: rat)\<bar> < 1" by simp
  then have "\<bar>round_even r - n\<bar> < 1"
    by (metis of_int_abs of_int_less_1_iff)
  then show ?thesis by simp
qed

text \<open>A positive \<open>x\<close> of the normal range, with the exponent guessed: \<open>2^52 \<le> x * 2^k < 2^53\<close>.\<close>

lemma fl_normal:
  assumes lo: "2 ^ 52 \<le> x * 2 ^ k" and hi: "x * 2 ^ k < 2 ^ 53" and k: "k \<le> 1074"
  shows "fl x = of_int (round_even (x * 2 ^ k)) / 2 ^ k"
proof -
  have p: "(0::rat) < 2 ^ k" by simp
  have x0: "0 < x"
  proof (rule ccontr)
    assume "\<not> 0 < x"
    then have "x * 2 ^ k \<le> 0" using p by (simp add: mult_le_0_iff)
    with lo show False by simp
  qed
  have e1: "(2::rat) powi (52 - int k) = 2 ^ 52 / 2 ^ k" by (simp add: power_int_diff)
  have e2: "(2::rat) powi (53 - int k) = 2 ^ 53 / 2 ^ k" by (simp add: power_int_diff)
  have "x < 2 ^ 53 / 2 ^ k" using hi p by (simp add: field_simps)
  then have "x < 2 powi (53 - int k)" by (simp only: e2)
  moreover have "53 - int k = 52 - int k + 1" by simp
  ultimately have h: "x < 2 powi (52 - int k + 1)" by (simp only:)
  have "2 ^ 52 / 2 ^ k \<le> x" using lo p by (simp add: field_simps)
  then have "2 powi (52 - int k) \<le> x" by (simp only: e1)
  from this h have "expo x = 52 - int k" by (rule expo_unique)
  then have "ulp x = 2 powi (- int k)" using k x0 by (simp add: ulp_def)
  also have "\<dots> = 1 / 2 ^ k" using pow2_neg [of "int k"] by simp
  finally have u: "ulp x = 1 / 2 ^ k" .
  show ?thesis by (simp add: fl_pos [OF x0] u)
qed

lemma fl_eval:
  assumes lo: "2 ^ 52 \<le> x * 2 ^ k" and hi: "x * 2 ^ k < 2 ^ 53" and k: "k \<le> 1074"
    and n: "\<bar>of_int n - x * 2 ^ k\<bar> < 1 / 2"
  shows "fl x = of_int n / 2 ^ k"
  using round_even_near [OF n] by (simp add: fl_normal [OF lo hi k])

section \<open>Number values\<close>

lemma num_fin: "\<bar>fl x\<bar> < 2 ^ 1024 \<Longrightarrow> num x = Fin (fl x)"
  by (simp add: num_def)

lemma num_minus: "num (- x) = js_neg (num x)"
  by (cases "x = 0") (auto simp add: num_def fl_minus fl_zero)

lemma num_bounded:
  assumes "0 \<le> x" "x \<le> c" "is_integral c" "c < 2 ^ 53"
  shows "\<exists>y. num x = Fin y \<and> 0 \<le> y \<and> y \<le> c"
proof -
  have a: "0 \<le> fl x" using assms(1) by (rule fl_nonneg)
  have b: "fl x \<le> c" using assms by (rule fl_le_integral)
  have "\<bar>fl x\<bar> < 2 ^ 1024" using a b assms(4) by simp
  then show ?thesis using a b by (simp add: num_fin)
qed

lemma num_dyadic:
  assumes i: "is_integral (x * 2 ^ j)" and b: "\<bar>x\<bar> * 2 ^ j < 2 ^ 53" and j: "j \<le> 1074"
  shows "num x = Fin x"
proof -
  have "\<bar>x\<bar> * 1 \<le> \<bar>x\<bar> * 2 ^ j" by (intro mult_left_mono) simp_all
  then have "\<bar>x\<bar> < 2 ^ 1024" using b by simp
  then show ?thesis by (simp add: num_def fl_dyadic [OF i b j])
qed

lemma num_integral: "is_integral x \<Longrightarrow> \<bar>x\<bar> < 2 ^ 53 \<Longrightarrow> num x = Fin x"
  using num_dyadic [of x 0] by simp

lemma num_normal:
  assumes lo: "2 ^ 52 \<le> x * 2 ^ k" and hi: "x * 2 ^ k < 2 ^ 53" and k: "k \<le> 1074"
  shows "num x = Fin (of_int (round_even (x * 2 ^ k)) / 2 ^ k)"
proof -
  define n where "n = round_even (x * 2 ^ k)"
  have f: "fl x = of_int n / 2 ^ k" unfolding n_def using lo hi k by (rule fl_normal)
  have "x * 2 ^ k \<le> of_int (2 ^ 53)" using hi by simp
  then have "n \<le> 2 ^ 53" unfolding n_def by (rule round_even_le)
  moreover have "of_int 0 \<le> x * 2 ^ k" using lo by simp
  then have "0 \<le> n" unfolding n_def by (rule round_even_ge)
  ultimately have n: "0 \<le> (of_int n :: rat)" "(of_int n :: rat) \<le> 2 ^ 53"
    by (simp_all add: of_int_le_numeral_power_cancel_iff)
  have "(of_int n :: rat) / 2 ^ k \<le> of_int n / 1"
    using n(1) by (intro divide_left_mono) simp_all
  then have "\<bar>fl x\<bar> \<le> 2 ^ 53" using n by (simp add: f)
  then have "\<bar>fl x\<bar> < 2 ^ 1024" by simp
  then show ?thesis by (simp add: num_fin f n_def)
qed

lemma floor_quotient: "\<lfloor>numeral a / numeral b :: rat\<rfloor> = numeral a div numeral b"
  using floor_divide_of_int_eq [of "numeral a" "numeral b", where ?'a = rat] by simp

text \<open>The doubles that the numeric literals and the sample inputs below denote.\<close>

lemmas round_simps = round_even_def Let_def floor_quotient

lemma num_0_01: "num (1 / 100) = Fin (5764607523034235 / 576460752303423488)"
  using num_normal [of "1 / 100" 59] by (simp add: round_simps)

lemma num_0_2: "num (1 / 5) = Fin (3602879701896397 / 18014398509481984)"
  using num_normal [of "1 / 5" 55] by (simp add: round_simps)

lemma num_0_3: "num (3 / 10) = Fin (5404319552844595 / 18014398509481984)"
  using num_normal [of "3 / 10" 54] by (simp add: round_simps)

lemma num_0_6: "num (3 / 5) = Fin (5404319552844595 / 9007199254740992)"
  using num_normal [of "3 / 5" 53] by (simp add: round_simps)

section \<open>White space\<close>

lemma leadingSpace_Nil: "leadingSpace [] = 0"
  by (simp add: leadingSpace_def startsWith_def whiteSpace_def)

lemma trailingSpace_Nil: "trailingSpace [] = 0"
  by (simp add: trailingSpace_def endsWith_def whiteSpace_def)

lemma trimStart_stop: "leadingSpace s = 0 \<Longrightarrow> trimStart s = s"
  by (subst trimStart.simps) simp

lemma trimStart_step:
  "leadingSpace s = Suc k \<Longrightarrow> trimStart s = trimStart (drop (Suc k) s)"
  by (subst trimStart.simps) simp

lemma trimEnd_stop: "trailingSpace s = 0 \<Longrightarrow> trimEnd s = s"
  by (subst trimEnd.simps) simp

lemma trimEnd_step:
  "trailingSpace s = Suc k \<Longrightarrow> trimEnd s = trimEnd (take (length s - Suc k) s)"
  by (subst trimEnd.simps) simp

lemma trim_Nil: "trim [] = []"
  by (simp add: trim_def trimStart_stop trimEnd_stop leadingSpace_Nil trailingSpace_Nil)

lemma leadingSpace_other: "c \<notin> set (map hd whiteSpace) \<Longrightarrow> leadingSpace (c # cs) = 0"
  by (simp add: leadingSpace_def startsWith_def whiteSpace_def)

lemmas trim_simps =
  trim_def trimStart_stop trimStart_step trimEnd_stop trimEnd_step leadingSpace_def
  trailingSpace_def startsWith_def endsWith_def whiteSpace_def

lemma trim_samples:
  "trim ''Elk'' = ''Elk''" "trim ''Clear'' = ''Clear''" "trim ''TANK REFILL'' = ''TANK REFILL''"
  "trim [CHR 0xC2, CHR 0xA0] = []" "trim '' Elk  '' = ''Elk''"
  by (simp_all add: trim_simps)

section \<open>Digits and the round trip through \<open>toFixed\<close> and \<open>parseFloat\<close>\<close>

lemma of_char_digit_char: "d < 10 \<Longrightarrow> (of_char (digit_char d) :: nat) = 48 + d"
  by (simp add: digit_char_def)

lemma is_digit_digit_char: "d < 10 \<Longrightarrow> is_digit (digit_char d)"
  by (simp add: is_digit_def of_char_digit_char)

lemma digit_val_digit_char: "d < 10 \<Longrightarrow> digit_val (digit_char d) = d"
  by (simp add: digit_val_def of_char_digit_char)

lemma decimal_digits: "c \<in> set (decimal n) \<Longrightarrow> is_digit c"
proof (induction n arbitrary: c rule: decimal.induct)
  case (1 n)
  show ?case
  proof (cases "n < 10")
    case True
    with "1.prems" show ?thesis
      by (simp add: decimal.simps [of n] is_digit_digit_char)
  next
    case False
    with "1.prems" "1.IH" show ?thesis
      by (auto simp add: decimal.simps [of n] is_digit_digit_char)
  qed
qed

lemma decimal_nonempty: "decimal n \<noteq> []"
  by (subst decimal.simps) simp

lemma digits_val_append:
  "digits_val (xs @ ys) = digits_val xs * 10 ^ length ys + digits_val ys"
proof (induction ys rule: rev_induct)
  case Nil
  show ?case by (simp add: digits_val_def)
next
  case (snoc y ys)
  have "digits_val (xs @ ys @ [y]) = digits_val (xs @ ys) * 10 + digit_val y"
    by (simp add: digits_val_def)
  also have "\<dots> = (digits_val xs * 10 ^ length ys + digits_val ys) * 10 + digit_val y"
    by (simp add: snoc.IH)
  also have "\<dots> = digits_val xs * 10 ^ length (ys @ [y]) + (digits_val ys * 10 + digit_val y)"
    by (simp add: algebra_simps)
  also have "digits_val ys * 10 + digit_val y = digits_val (ys @ [y])"
    by (simp add: digits_val_def)
  finally show ?case by simp
qed

lemma digits_val_decimal: "digits_val (decimal n) = n"
proof (induction n rule: decimal.induct)
  case (1 n)
  show ?case
  proof (cases "n < 10")
    case True
    then show ?thesis
      by (simp add: decimal.simps [of n] digits_val_def digit_val_digit_char)
  next
    case False
    have "digits_val (decimal n) = digits_val (decimal (n div 10)) * 10 + digits_val [digit_char (n mod 10)]"
      using False by (simp add: decimal.simps [of n] digits_val_append)
    also have "\<dots> = (n div 10) * 10 + n mod 10"
      using False "1.IH" by (simp add: digits_val_def digit_val_digit_char)
    finally show ?thesis by simp
  qed
qed

lemma digits_val_zeros: "digits_val (replicate k (CHR ''0'')) = 0"
proof (induction k)
  case 0
  show ?case by (simp add: digits_val_def)
next
  case (Suc k)
  have "replicate (Suc k) (CHR ''0'') = replicate k (CHR ''0'') @ [CHR ''0'']"
    by (simp add: replicate_append_same)
  then have "digits_val (replicate (Suc k) (CHR ''0'')) =
      digits_val (replicate k (CHR ''0'')) * 10 + digits_val [CHR ''0'']"
    by (simp only: digits_val_append) simp
  also have "\<dots> = 0"
    by (simp add: Suc.IH) (simp add: digits_val_def digit_val_def)
  finally show ?case .
qed

lemma takeWhile_digits:
  "(\<And>c. c \<in> set ds \<Longrightarrow> is_digit c) \<Longrightarrow> (rest = [] \<or> \<not> is_digit (hd rest)) \<Longrightarrow>
   takeWhile is_digit (ds @ rest) = ds"
  by (cases rest) (auto simp add: takeWhile_append2 intro: takeWhile_eq_all_conv [THEN iffD2])

lemma dropWhile_digits:
  "(\<And>c. c \<in> set ds \<Longrightarrow> is_digit c) \<Longrightarrow> (rest = [] \<or> \<not> is_digit (hd rest)) \<Longrightarrow>
   dropWhile is_digit (ds @ rest) = rest"
  by (cases rest) (auto simp add: dropWhile_append2)

lemma digit_not_special:
  "is_digit c \<Longrightarrow>
     c \<notin> set (map hd whiteSpace) \<and> c \<noteq> CHR ''-'' \<and> c \<noteq> CHR ''+'' \<and> c \<noteq> CHR ''.'' \<and> c \<noteq> CHR ''I''"
  by (auto simp add: is_digit_def whiteSpace_def)

lemma trimStart_minus: "trimStart (CHR ''-'' # cs) = CHR ''-'' # cs"
  by (rule trimStart_stop, rule leadingSpace_other) (simp add: whiteSpace_def)

lemma dot_not_digit: "\<not> is_digit (CHR ''.'')"
  by (simp add: is_digit_def)

text \<open>Parsing a literal in fixed notation, with and without a sign and a fraction.\<close>

lemma parse_unsigned:
  assumes a: "\<And>c. c \<in> set a \<Longrightarrow> is_digit c" and b: "\<And>c. c \<in> set b \<Longrightarrow> is_digit c"
    and ne: "a \<noteq> []"
  shows "literalValue (a @ ''.'' @ b) = Fin (of_nat (digits_val a) + of_nat (digits_val b) / 10 ^ length b)"
    and "literalValue (''-'' @ a @ ''.'' @ b) = Fin (- (of_nat (digits_val a) + of_nat (digits_val b) / 10 ^ length b))"
    and "literalValue a = Fin (of_nat (digits_val a))"
    and "literalValue (''-'' @ a) = Fin (- of_nat (digits_val a))"
proof -
  obtain c cs where acs: "a = c # cs" using ne by (cases a) auto
  have c: "is_digit c" using a acs by simp
  note sp = digit_not_special [OF c]
  have tw: "takeWhile is_digit (a @ CHR ''.'' # b) = a"
    using takeWhile_digits [of a "CHR ''.'' # b"] a by (simp add: dot_not_digit)
  have dw: "dropWhile is_digit (a @ CHR ''.'' # b) = CHR ''.'' # b"
    using dropWhile_digits [of a "CHR ''.'' # b"] a by (simp add: dot_not_digit)
  have twb: "takeWhile is_digit b = b" using b by (simp add: takeWhile_eq_all_conv)
  have dwb: "dropWhile is_digit b = []" using b by (simp add: dropWhile_eq_Nil_conv)
  have twa: "takeWhile is_digit a = a" using a by (simp add: takeWhile_eq_all_conv)
  have dwa: "dropWhile is_digit a = []" using a by (simp add: dropWhile_eq_Nil_conv)
  have inf1: "take 8 (a @ CHR ''.'' # b) \<noteq> ''Infinity''"
    using sp by (simp add: acs)
  have inf2: "take 8 a \<noteq> ''Infinity''"
    using sp by (simp add: acs)
  have ss: "strip_sign (a @ CHR ''.'' # b) = (False, a @ CHR ''.'' # b)"
    "strip_sign a = (False, a)"
    using sp by (simp_all add: acs)
  have ds: "trimStart (a @ CHR ''.'' # b) = a @ CHR ''.'' # b"
    "trimStart a = a"
    using sp by (simp_all add: acs trimStart_stop leadingSpace_other)
  show "literalValue (a @ ''.'' @ b) = Fin (of_nat (digits_val a) + of_nat (digits_val b) / 10 ^ length b)"
    using ne inf1 by (simp add: literalValue_def ds ss tw dw twb dwb parse_exponent_def scale10_def)
  show "literalValue (''-'' @ a @ ''.'' @ b) = Fin (- (of_nat (digits_val a) + of_nat (digits_val b) / 10 ^ length b))"
    using ne inf1 by (simp add: literalValue_def trimStart_minus tw dw twb dwb parse_exponent_def scale10_def)
  show "literalValue a = Fin (of_nat (digits_val a))"
    using ne inf2 by (simp add: literalValue_def ds ss twa dwa parse_exponent_def scale10_def digits_val_def)
  show "literalValue (''-'' @ a) = Fin (- of_nat (digits_val a))"
    using ne inf2 by (simp add: literalValue_def trimStart_minus twa dwa parse_exponent_def scale10_def digits_val_def)
qed


lemma zero_is_digit: "is_digit (CHR ''0'')"
  by (simp add: is_digit_def)

lemma fixed_split:
  fixes n f :: nat and m' :: string
  assumes f: "0 < f"
    and m': "m' = (if length (decimal n) \<le> f
                   then replicate (f + 1 - length (decimal n)) (CHR ''0'') @ decimal n
                   else decimal n)"
    and kdef: "k = length m'"
  shows "take (k - f) m' \<noteq> []"
    and "length (drop (k - f) m') = f"
    and "\<And>c. c \<in> set (take (k - f) m') \<Longrightarrow> is_digit c"
    and "\<And>c. c \<in> set (drop (k - f) m') \<Longrightarrow> is_digit c"
    and "(of_nat (digits_val (take (k - f) m')) :: rat)
           + of_nat (digits_val (drop (k - f) m')) / 10 ^ f = of_nat n / 10 ^ f"
proof -
  have k: "f < k"
    by (auto simp add: kdef m')
  have dig: "\<And>c. c \<in> set m' \<Longrightarrow> is_digit c"
    by (auto simp add: m' zero_is_digit dest: decimal_digits split: if_splits)
  have val: "digits_val m' = n"
    by (simp add: m' digits_val_append digits_val_zeros digits_val_decimal)
  show "take (k - f) m' \<noteq> []" using k f by (auto simp add: kdef)
  show len: "length (drop (k - f) m') = f" using k by (simp add: kdef)
  show "\<And>c. c \<in> set (take (k - f) m') \<Longrightarrow> is_digit c"
    using dig by (blast dest: in_set_takeD)
  show "\<And>c. c \<in> set (drop (k - f) m') \<Longrightarrow> is_digit c"
    using dig by (blast dest: in_set_dropD)
  have "digits_val (take (k - f) m' @ drop (k - f) m') = n"
    using val by simp
  then have "digits_val (take (k - f) m') * 10 ^ f + digits_val (drop (k - f) m') = n"
    by (simp only: digits_val_append len)
  then have "(of_nat n :: rat) = of_nat (digits_val (take (k - f) m')) * 10 ^ f
      + of_nat (digits_val (drop (k - f) m'))"
    by (metis of_nat_add of_nat_mult of_nat_numeral of_nat_power)
  then show "(of_nat (digits_val (take (k - f) m')) :: rat)
           + of_nat (digits_val (drop (k - f) m')) / 10 ^ f = of_nat n / 10 ^ f"
    by (simp add: field_simps)
qed

lemma literalValue_toFixed:
  assumes "\<bar>q\<bar> < 10 ^ 21"
  shows "literalValue (toFixed sh f (Fin q)) = Fin (roundTo f q)"
proof (cases "f = 0")
  case True
  have d: "\<And>c n. c \<in> set (decimal n) \<Longrightarrow> is_digit c" by (rule decimal_digits)
  show ?thesis
    using assms True parse_unsigned(3,4) [OF d d decimal_nonempty]
    by (simp add: toFixed_def roundTo_def Let_def digits_val_decimal)
next
  case False
  then have f: "0 < f" by simp
  define n where "n = nat \<lfloor>\<bar>q\<bar> * 10 ^ f + 1 / 2\<rfloor>"
  define m' where "m' = (if length (decimal n) \<le> f
      then replicate (f + 1 - length (decimal n)) (CHR ''0'') @ decimal n else decimal n)"
  define a where "a = take (length m' - f) m'"
  define b where "b = drop (length m' - f) m'"
  note fs = fixed_split [OF f m'_def refl, folded a_def b_def]
  have tf: "toFixed sh f (Fin q) = (if q < 0 then ''-'' else []) @ a @ ''.'' @ b"
    using assms False by (simp add: toFixed_def Let_def n_def m'_def a_def b_def)
  have p1: "literalValue (a @ ''.'' @ b) = Fin (of_nat n / 10 ^ f)"
    using parse_unsigned(1) [OF fs(3) fs(4) fs(1)] fs(2) fs(5) by simp
  have p2: "literalValue (''-'' @ a @ ''.'' @ b) = Fin (- (of_nat n / 10 ^ f))"
    using parse_unsigned(2) [OF fs(3) fs(4) fs(1)] fs(2) fs(5) by simp
  show ?thesis
    using p1 p2 by (simp add: tf roundTo_def Let_def n_def)
qed

lemma parseFloat_toFixed:
  "\<bar>q\<bar> < 10 ^ 21 \<Longrightarrow> parseFloat (toFixed sh f (Fin q)) = num (roundTo f q)"
  by (simp add: parseFloat_def literalValue_toFixed)

section \<open>Evaluating the formatting functions on numerals\<close>

lemma digit_char_simps:
  "digit_char 0 = CHR ''0''" "digit_char 1 = CHR ''1''" "digit_char (Suc 0) = CHR ''1''"
  "digit_char 2 = CHR ''2''"
  "digit_char 3 = CHR ''3''" "digit_char 4 = CHR ''4''" "digit_char 5 = CHR ''5''"
  "digit_char 6 = CHR ''6''" "digit_char 7 = CHR ''7''" "digit_char 8 = CHR ''8''"
  "digit_char 9 = CHR ''9''"
  by code_simp+

lemma decimal_small: "n < 10 \<Longrightarrow> decimal n = [digit_char n]"
  by (simp add: decimal.simps)

lemma decimal_big: "10 \<le> n \<Longrightarrow> decimal n = decimal (n div 10) @ [digit_char (n mod 10)]"
  by (subst decimal.simps) simp

lemmas format_simps =
  toFixed_def numberToString_def Let_def floor_quotient decimal_small decimal_big digit_char_simps
  is_integral_def

section \<open>Rounding of stored volumes\<close>

lemma roundTo_exact:
  assumes "is_integral (q * 10 ^ f)"
  shows "roundTo f q = q"
proof -
  obtain j where j: "q * 10 ^ f = of_int j" using assms by (metis is_integral_def)
  have "\<bar>q\<bar> * 10 ^ f = \<bar>q * 10 ^ f\<bar>" by (simp add: abs_mult)
  also have "\<dots> = of_int \<bar>j\<bar>" by (simp add: j)
  finally obtain k where k: "\<bar>q\<bar> * 10 ^ f = of_int k" by blast
  have "0 \<le> \<bar>q\<bar> * 10 ^ f" by simp
  then have k0: "0 \<le> k" by (simp add: k)
  have "\<lfloor>(of_int k :: rat) + 1 / 2\<rfloor> = k" by (simp add: floor_unique)
  then have "(of_nat (nat \<lfloor>\<bar>q\<bar> * 10 ^ f + 1 / 2\<rfloor>) :: rat) = \<bar>q\<bar> * 10 ^ f"
    using k0 by (simp add: k)
  then have "(of_nat (nat \<lfloor>\<bar>q\<bar> * 10 ^ f + 1 / 2\<rfloor>) :: rat) / 10 ^ f = \<bar>q\<bar>"
    by simp
  then show ?thesis by (simp add: roundTo_def Let_def)
qed

lemma stored_exact:
  "\<bar>q\<bar> < 10 ^ 21 \<Longrightarrow> is_integral (q * 10 ^ f) \<Longrightarrow> parseFloat (toFixed sh f (Fin q)) = num q"
  by (simp add: parseFloat_toFixed roundTo_exact)

lemma stored_integral:
  "is_integral q \<Longrightarrow> \<bar>q\<bar> < 2 ^ 53 \<Longrightarrow> parseFloat (toFixed sh f (Fin q)) = Fin q"
proof -
  assume i: "is_integral q" and b: "\<bar>q\<bar> < 2 ^ 53"
  have "is_integral (q * 10 ^ f)"
    using i by (metis is_integral_def is_integral_of_int of_int_mult of_int_numeral of_int_power)
  moreover have "\<bar>q\<bar> < 10 ^ 21" using b by simp
  ultimately show ?thesis using i b by (simp add: stored_exact num_integral)
qed

lemma roundTo_nonneg: "0 \<le> q \<Longrightarrow> 0 \<le> roundTo f q"
  by (simp add: roundTo_def Let_def)

lemma roundTo_le:
  assumes q: "0 \<le> q" "q \<le> c" and c: "is_integral (c * 10 ^ f)"
  shows "roundTo f q \<le> c"
proof -
  define k where "k = \<lfloor>c * 10 ^ f\<rfloor>"
  have ck: "c * 10 ^ f = of_int k" using c by (metis is_integral_def k_def)
  have "q * 10 ^ f + 1 / 2 \<le> of_int k + 1 / 2"
    using q by (simp add: ck [symmetric] mult_right_mono)
  then have "\<lfloor>q * 10 ^ f + 1 / 2\<rfloor> \<le> \<lfloor>(of_int k :: rat) + 1 / 2\<rfloor>"
    by (rule floor_mono)
  also have "\<lfloor>(of_int k :: rat) + 1 / 2\<rfloor> = k"
    by (simp add: floor_unique)
  finally have le: "\<lfloor>q * 10 ^ f + 1 / 2\<rfloor> \<le> k" .
  have nn: "0 \<le> \<lfloor>q * 10 ^ f + 1 / 2\<rfloor>" using q by simp
  have "(of_nat (nat \<lfloor>q * 10 ^ f + 1 / 2\<rfloor>) :: rat) = of_int \<lfloor>q * 10 ^ f + 1 / 2\<rfloor>"
    using nn by simp
  also have "\<dots> \<le> of_int k" using le by simp
  finally have "(of_nat (nat \<lfloor>q * 10 ^ f + 1 / 2\<rfloor>) :: rat) \<le> c * 10 ^ f"
    by (simp add: ck)
  then have "(of_nat (nat \<lfloor>q * 10 ^ f + 1 / 2\<rfloor>) :: rat) / 10 ^ f \<le> c"
    by (simp add: field_simps)
  then show ?thesis using q by (simp add: roundTo_def Let_def)
qed

lemma stored_within:
  assumes "0 \<le> q" "q \<le> 600"
  shows "\<exists>g. parseFloat (toFixed sh 2 (Fin q)) = Fin g \<and> 0 \<le> g \<and> g \<le> 600"
proof -
  have "\<bar>q\<bar> < 10 ^ 21" using assms by simp
  then have p: "parseFloat (toFixed sh 2 (Fin q)) = num (roundTo 2 q)"
    by (rule parseFloat_toFixed)
  have i: "is_integral (600 * 10 ^ 2)" "is_integral 600"
    by (simp_all add: is_integral_def)
  have "0 \<le> roundTo 2 q" using assms(1) by (rule roundTo_nonneg)
  moreover have "roundTo 2 q \<le> 600" using assms i(1) by (rule roundTo_le)
  ultimately show ?thesis using num_bounded [of "roundTo 2 q" 600] i(2) by (simp add: p)
qed

section \<open>The tank stays within its capacity\<close>

lemma positive_cases:
  "\<not> isNaN u \<Longrightarrow> \<not> js_le u (Fin 0) \<Longrightarrow> u = PosInf \<or> (\<exists>a. u = Fin a \<and> 0 < a)"
  by (cases u) auto

lemma num_nonneg_cases: "0 \<le> x \<Longrightarrow> num x = PosInf \<or> (\<exists>y. num x = Fin y \<and> 0 \<le> y)"
  using fl_nonneg [of x] by (auto simp add: num_def)

lemma snapshot_tank:
  "firestore st \<noteq> [] \<Longrightarrow>
     gallonsLeft (snapshot sh st) = log_gallonsLeft (last (firestore st)) \<and>
     startingGallons (snapshot sh st) = initialTankVolume (last (firestore st))"
  by (simp add: snapshot_def syncConditions_def afterRender_def chemicalMixEffect_def
      onSnapshot_def Let_def split: option.splits)

lemma logApplication_result:
  "logApplication sh rp st = (out, st') \<Longrightarrow>
     (\<exists>e. out = Failed e \<and> st' = st) \<or>
     (out = Logged \<and>
      \<not> isNaN (gallonsUsedOnRoad st) \<and> \<not> js_le (gallonsUsedOnRoad st) (Fin 0) \<and>
      \<not> js_gt (gallonsUsedOnRoad st) (gallonsLeft st) \<and>
      (\<exists>e. firestore st' = firestore st @ [e] \<and>
           log_gallonsLeft e = parseFloat (toFixed sh 2 (js_sub (gallonsLeft st) (gallonsUsedOnRoad st))) \<and>
           initialTankVolume e = startingGallons st))"
  by (auto simp add: logApplication_def Let_def split: if_splits)

lemma handleRefill_result:
  "handleRefill sh rp st = (out, st') \<Longrightarrow>
     (\<exists>e. out = Failed e \<and> st' = st) \<or>
     ((\<exists>capped. out = Refilled capped) \<and>
      \<not> isNaN (gallonsToRefill st) \<and> \<not> js_le (gallonsToRefill st) (Fin 0) \<and>
      (\<exists>e. firestore st' = firestore st @ [e] \<and>
           log_gallonsLeft e = parseFloat (toFixed sh 2
              (js_min (startingGallons st) (js_add (gallonsLeft st) (gallonsToRefill st)))) \<and>
           initialTankVolume e = startingGallons st))"
  by (auto simp add: handleRefill_def performRefill_def Let_def split: if_splits)

lemma perform_snd:
  "click sh (snd cr) (fst cr) (fill (fst cr) st) = (out, st2) \<Longrightarrow>
   snd (perform sh cr st) = (case out of Failed e \<Rightarrow> st2 | _ \<Rightarrow> snapshot sh st2)"
  by (simp add: perform_def split: outcome.splits)

lemma perform_keeps_tank:
  assumes "gallonsLeft st = Fin g" "0 \<le> g" "g \<le> 600" "startingGallons st = Fin 600"
  shows "\<exists>g'. gallonsLeft (snd (perform sh cr st)) = Fin g' \<and> 0 \<le> g' \<and> g' \<le> 600 \<and>
              startingGallons (snd (perform sh cr st)) = Fin 600"
proof (cases "fst cr")
  case (LogApplication road gallons mix w t wd ws)
  define st1 where "st1 = fill (fst cr) st"
  have st1: "gallonsLeft st1 = Fin g" "startingGallons st1 = Fin 600" "gallonsUsedOnRoad st1 = gallons"
    using assms by (simp_all add: st1_def LogApplication)
  obtain out st2 where r: "logApplication sh (snd cr) st1 = (out, st2)" by fastforce
  then have c: "click sh (snd cr) (fst cr) (fill (fst cr) st) = (out, st2)"
    by (simp add: LogApplication st1_def)
  note ps = perform_snd [OF c]
  from logApplication_result [OF r] show ?thesis
  proof
    assume "\<exists>e. out = Failed e \<and> st2 = st1"
    then show ?thesis
      using assms st1 ps by auto
  next
    assume ok: "out = Logged \<and>
      \<not> isNaN (gallonsUsedOnRoad st1) \<and> \<not> js_le (gallonsUsedOnRoad st1) (Fin 0) \<and>
      \<not> js_gt (gallonsUsedOnRoad st1) (gallonsLeft st1) \<and>
      (\<exists>e. firestore st2 = firestore st1 @ [e] \<and>
           log_gallonsLeft e = parseFloat (toFixed sh 2 (js_sub (gallonsLeft st1) (gallonsUsedOnRoad st1))) \<and>
           initialTankVolume e = startingGallons st1)"
    then obtain e where e: "firestore st2 = firestore st1 @ [e]"
      "log_gallonsLeft e = parseFloat (toFixed sh 2 (js_sub (Fin g) gallons))"
      "initialTankVolume e = Fin 600"
      by (auto simp add: st1)
    from ok have "gallons = PosInf \<or> (\<exists>a. gallons = Fin a \<and> 0 < a)"
      using positive_cases [of gallons] by (simp add: st1)
    moreover from ok have "\<not> js_lt (Fin g) gallons" by (simp add: st1 js_gt_def)
    ultimately obtain a where a: "gallons = Fin a" "0 < a" "a \<le> g" by auto
    have s: "js_sub (Fin g) gallons = num (g - a)" by (simp add: a js_sub_def)
    have "0 \<le> g - a" "g - a \<le> 600" using a assms by simp_all
    then obtain d where d: "num (g - a) = Fin d" "0 \<le> d" "d \<le> 600"
      using num_bounded [of "g - a" 600] by (auto simp add: is_integral_def)
    obtain g' where "log_gallonsLeft e = Fin g'" "0 \<le> g'" "g' \<le> 600"
      using stored_within [OF d(2,3), of sh] e(2) by (auto simp add: s d(1))
    moreover have "snd (perform sh cr st) = snapshot sh st2"
      using ps ok by simp
    ultimately show ?thesis
      using snapshot_tank [of st2 sh] e by simp
  qed
next
  case (LogRefill gallons)
  define st1 where "st1 = fill (fst cr) st"
  have st1: "gallonsLeft st1 = Fin g" "startingGallons st1 = Fin 600" "gallonsToRefill st1 = gallons"
    using assms by (simp_all add: st1_def LogRefill)
  obtain out st2 where r: "handleRefill sh (snd cr) st1 = (out, st2)" by fastforce
  then have c: "click sh (snd cr) (fst cr) (fill (fst cr) st) = (out, st2)"
    by (simp add: LogRefill st1_def)
  note ps = perform_snd [OF c]
  from handleRefill_result [OF r] show ?thesis
  proof
    assume "\<exists>e. out = Failed e \<and> st2 = st1"
    then show ?thesis
      using assms st1 ps by auto
  next
    assume ok: "(\<exists>capped. out = Refilled capped) \<and>
      \<not> isNaN (gallonsToRefill st1) \<and> \<not> js_le (gallonsToRefill st1) (Fin 0) \<and>
      (\<exists>e. firestore st2 = firestore st1 @ [e] \<and>
           log_gallonsLeft e = parseFloat (toFixed sh 2
              (js_min (startingGallons st1) (js_add (gallonsLeft st1) (gallonsToRefill st1)))) \<and>
           initialTankVolume e = startingGallons st1)"
    then obtain e where e: "firestore st2 = firestore st1 @ [e]"
      "log_gallonsLeft e = parseFloat (toFixed sh 2 (js_min (Fin 600) (js_add (Fin g) gallons)))"
      "initialTankVolume e = Fin 600"
      by (auto simp add: st1)
    from ok have "gallons = PosInf \<or> (\<exists>a. gallons = Fin a \<and> 0 < a)"
      using positive_cases [of gallons] by (simp add: st1)
    then have "\<exists>m. js_min (Fin 600) (js_add (Fin g) gallons) = Fin m \<and> 0 \<le> m \<and> m \<le> 600"
    proof
      assume "gallons = PosInf"
      then show ?thesis by simp
    next
      assume "\<exists>a. gallons = Fin a \<and> 0 < a"
      then obtain a where a: "gallons = Fin a" "0 < a" by blast
      have "0 \<le> g + a" using a assms by simp
      from num_nonneg_cases [OF this] show ?thesis
        by (auto simp add: a)
    qed
    then obtain m where m: "js_min (Fin 600) (js_add (Fin g) gallons) = Fin m" "0 \<le> m" "m \<le> 600"
      by blast
    obtain g' where "log_gallonsLeft e = Fin g'" "0 \<le> g'" "g' \<le> 600"
      using stored_within [OF m(2,3), of sh] e(2) m(1) by auto
    moreover have "snd (perform sh cr st) = snapshot sh st2"
      using ps ok by auto
    ultimately show ?thesis
      using snapshot_tank [of st2 sh] e by simp
  qed
qed

lemma run_keeps_tank:
  assumes "gallonsLeft st = Fin g" "0 \<le> g" "g \<le> 600" "startingGallons st = Fin 600"
  shows "\<exists>g'. gallonsLeft (run sh crs st) = Fin g' \<and> 0 \<le> g' \<and> g' \<le> 600 \<and>
              startingGallons (run sh crs st) = Fin 600"
  using assms
proof (induction crs arbitrary: st g)
  case Nil
  then show ?case by simp
next
  case (Cons cr crs)
  from perform_keeps_tank [OF Cons.prems, of sh cr]
  obtain g' where "gallonsLeft (snd (perform sh cr st)) = Fin g'" "0 \<le> g'" "g' \<le> 600"
      "startingGallons (snd (perform sh cr st)) = Fin 600" by blast
  from Cons.IH [OF this] show ?case by simp
qed

lemmas eval_defs =
  sampleCalls_def sampleReply_def sampleMix_def signedIn_def initialState_def
  perform_def logApplication_def handleRefill_def performRefill_def notReady_def Let_def
  trim_samples js_gt_def js_sub_def stored_integral num_integral is_integral_def snapshot_def
  onSnapshot_def afterRender_def syncConditions_def lastAppliedConditions_def
  hasConditions_def num_0_01

text \<open>
  C1. Starting from the default state (capacity 600, 600 gallons left, no events), after any
  sequence of \<open>logApplication\<close> and \<open>logRefill\<close> calls, each with any inputs and any
  answer of the store, the derived \<open>gallonsLeft\<close> is at least 0 and at most the current
  capacity, which is still 600. A call that fails validation changes nothing, so the
  statement covers the state after each successful call of the sequence. Every volume is
  computed in double arithmetic and stored rounded to two decimals.
\<close>

theorem gallonsLeft_within_capacity:
  "js_le (Fin 0) (gallonsLeft (run sh crs (signedIn uid initialState))) \<and>
   js_le (gallonsLeft (run sh crs (signedIn uid initialState)))
         (startingGallons (run sh crs (signedIn uid initialState))) \<and>
   startingGallons (run sh crs (signedIn uid initialState)) = Fin 600"
proof -
  have "\<exists>g'. gallonsLeft (run sh crs (signedIn uid initialState)) = Fin g' \<and> 0 \<le> g' \<and> g' \<le> 600 \<and>
              startingGallons (run sh crs (signedIn uid initialState)) = Fin 600"
    by (rule run_keeps_tank [of _ 600]) (simp_all add: signedIn_def initialState_def)
  then show ?thesis by auto
qed

theorem gallonsLeft_within_capacity_witness:
  "gallonsLeft (run sampleShortest sampleCalls (signedIn ''u1'' initialState)) = Fin 570 \<and>
   length (firestore (run sampleShortest sampleCalls (signedIn ''u1'' initialState))) = 2 \<and>
   js_le (Fin 0) (gallonsLeft (run sampleShortest sampleCalls (signedIn ''u1'' initialState))) \<and>
   js_le (gallonsLeft (run sampleShortest sampleCalls (signedIn ''u1'' initialState)))
         (startingGallons (run sampleShortest sampleCalls (signedIn ''u1'' initialState))) \<and>
   startingGallons (run sampleShortest sampleCalls (signedIn ''u1'' initialState)) = Fin 600"
proof -
  have "gallonsLeft (run sampleShortest sampleCalls (signedIn ''u1'' initialState)) = Fin 570 \<and>
      length (firestore (run sampleShortest sampleCalls (signedIn ''u1'' initialState))) = 2"
    by (simp add: eval_defs)
  then show ?thesis
    using gallonsLeft_within_capacity [of sampleShortest sampleCalls "''u1''"] by simp
qed

section \<open>Refill: capping, tolerance and rounding\<close>

lemmas step_defs =
  sampleCalls_def sampleReply_def sampleMix_def signedIn_def initialState_def
  perform_def logApplication_def handleRefill_def performRefill_def notReady_def Let_def
  trim_samples js_gt_def snapshot_def onSnapshot_def afterRender_def syncConditions_def
  lastAppliedConditions_def hasConditions_def

lemma tankAfter_facts:
  assumes "0 < a" "a \<le> 600"
  shows "gallonsLeft (tankAfter (Fin a)) = parseFloat (toFixed sampleShortest 2 (js_sub (Fin 600) (Fin a)))"
    and "startingGallons (tankAfter (Fin a)) = Fin 600"
    and "\<not> notReady (tankAfter (Fin a))"
    and "length (firestore (tankAfter (Fin a))) = 1"
  using assms by (simp_all add: tankAfter_def step_defs)

lemma tankAfter_100:
  "gallonsLeft (tankAfter (Fin 100)) = Fin 500 \<and> startingGallons (tankAfter (Fin 100)) = Fin 600 \<and>
   \<not> notReady (tankAfter (Fin 100)) \<and> length (firestore (tankAfter (Fin 100))) = 1"
  using tankAfter_facts [of 100]
  by (simp add: js_sub_def num_integral stored_integral is_integral_def)

lemma tankAfter_20:
  "gallonsLeft (tankAfter (Fin 20)) = Fin 580 \<and> startingGallons (tankAfter (Fin 20)) = Fin 600 \<and>
   \<not> notReady (tankAfter (Fin 20)) \<and> length (firestore (tankAfter (Fin 20))) = 1"
  using tankAfter_facts [of 20]
  by (simp add: js_sub_def num_integral stored_integral is_integral_def)

text \<open>599.7 gallons applied: \<open>600 - 599.7\<close> is \<open>0.2999999999999545\<close> and is stored as \<open>0.3\<close>.\<close>

lemma num_599_7: "num (5997 / 10) = Fin (2637508492709069 / 4398046511104)"
  using num_normal [of "5997 / 10" 43] by (simp add: round_simps)

lemma tankAfter_599_7:
  "gallonsLeft (tankAfter (num (5997 / 10))) = num (3 / 10) \<and>
   startingGallons (tankAfter (num (5997 / 10))) = Fin 600 \<and>
   \<not> notReady (tankAfter (num (5997 / 10))) \<and>
   length (firestore (tankAfter (num (5997 / 10)))) = 1"
proof -
  have s: "js_sub (Fin 600) (Fin (2637508492709069 / 4398046511104))
      = Fin (1319413953331 / 4398046511104)"
    using num_normal [of "1319413953331 / 4398046511104" 54]
    by (simp add: js_sub_def round_simps)
  have r: "roundTo 2 (1319413953331 / 4398046511104) = 3 / 10"
    by (simp add: roundTo_def Let_def floor_quotient)
  have p: "parseFloat (toFixed sampleShortest 2 (Fin (1319413953331 / 4398046511104))) = num (3 / 10)"
    by (simp add: parseFloat_toFixed r)
  show ?thesis
    using tankAfter_facts [of "2637508492709069 / 4398046511104"]
    by (simp add: num_599_7 s p)
qed

lemma num_nonpos_cases: "x \<le> 0 \<Longrightarrow> num x = NegInf \<or> (\<exists>y. num x = Fin y \<and> y \<le> 0)"
  using fl_nonpos [of x] by (cases "x = 0") (auto simp add: num_def fl_zero)

lemma capped_flag: "js_lt (js_min c t) t = js_lt c t"
  by (cases c; cases t) auto

lemma full_tank:
  "\<not> isNaN x \<Longrightarrow> js_le (js_sub (js_min (Fin c) (js_add (Fin c) x)) (Fin c)) (num (1 / 100))"
proof (cases x)
  case NaN
  assume "\<not> isNaN x"
  with NaN show ?thesis by simp
next
  case NegInf
  then show ?thesis by (simp add: js_sub_def num_0_01)
next
  case PosInf
  then show ?thesis by (simp add: js_sub_def num_0_01 num_integral is_integral_def)
next
  case (Fin a)
  obtain m where m: "js_min (Fin c) (js_add (Fin c) x) = m" by simp
  have "num (c + a) = NegInf \<or> num (c + a) = PosInf \<or> (\<exists>y. num (c + a) = Fin y)"
    by (simp add: num_def)
  then have "m = NegInf \<or> (\<exists>y. m = Fin y \<and> y \<le> c)"
    using m by (auto simp add: Fin split: if_splits)
  then show ?thesis
  proof
    assume "m = NegInf"
    then show ?thesis by (simp add: m js_sub_def num_0_01)
  next
    assume "\<exists>y. m = Fin y \<and> y \<le> c"
    then obtain y where y: "m = Fin y" "y \<le> c" by blast
    have "y - c \<le> 0" using y by simp
    from num_nonpos_cases [OF this] show ?thesis
      by (auto simp add: m y js_sub_def num_0_01)
  qed
qed

lemma performRefill_fail:
  "\<not> notReady st \<Longrightarrow> js_le (actualAdded st x) (num (1 / 100)) \<Longrightarrow>
   performRefill sh rp x st = (Failed TankFull, st)"
  by (simp add: performRefill_def actualAdded_def refillTarget_def Let_def)

lemma performRefill_ok:
  "\<not> notReady st \<Longrightarrow> accepted rp \<Longrightarrow> \<not> js_le (actualAdded st x) (num (1 / 100)) \<Longrightarrow>
   performRefill sh rp x st =
     (Refilled (js_lt (startingGallons st) (js_add (gallonsLeft st) x)),
      st\<lparr>firestore := firestore st @
            [\<lparr>docId = newDocId rp, roadName = ''TANK REFILL'',
              gallonsUsed = js_neg (actualAdded st x),
              log_gallonsLeft = parseFloat (toFixed sh 2 (refillTarget st x)),
              initialTankVolume = startingGallons st, log_chemicalMix = [],
              weatherConditions = None, timestamp = serverTime rp\<rparr>],
         gallonsToRefill := Fin 0\<rparr>)"
  by (simp add: performRefill_def actualAdded_def refillTarget_def Let_def capped_flag)

text \<open>
  C2, as the code has it. Let \<open>actualAdded = min(capacity, gallonsLeft + x) - gallonsLeft\<close>,
  computed in double arithmetic. When the system is initialised and the store accepts the
  write, \<open>performRefill\<close>:
  \<^item> fails with \<open>TankFull\<close> and leaves the state and the collection unchanged if
    \<open>actualAdded <= 0.01\<close>, in particular whenever \<open>gallonsLeft\<close> equals a finite capacity
    and \<open>x\<close> is a number;
  \<^item> otherwise appends one Refill event with \<open>gallonsUsed = -actualAdded\<close> and reports
    the request as capped exactly when the sum \<open>gallonsLeft + x\<close> exceeds the capacity;
  \<^item> the new \<open>gallonsLeft\<close> is \<open>min(capacity, gallonsLeft + x)\<close> printed with two decimals
    and read back, that is rounded to two decimals and then to a double: it is that
    minimum itself when the minimum is an integer.
\<close>

theorem performRefill_caps_and_rounds:
  assumes "\<not> notReady st" and "accepted rp"
  shows "(js_le (actualAdded st x) (num (1 / 100)) \<longrightarrow>
            performRefill sh rp x st = (Failed TankFull, st)) \<and>
         (gallonsLeft st = startingGallons st \<and> (\<exists>c. gallonsLeft st = Fin c) \<and> \<not> isNaN x \<longrightarrow>
            performRefill sh rp x st = (Failed TankFull, st)) \<and>
         (\<not> js_le (actualAdded st x) (num (1 / 100)) \<longrightarrow>
            fst (performRefill sh rp x st)
              = Refilled (js_lt (startingGallons st) (js_add (gallonsLeft st) x)) \<and>
            (\<exists>e. firestore (snd (performRefill sh rp x st)) = firestore st @ [e] \<and>
                 roadName e = ''TANK REFILL'' \<and>
                 gallonsUsed e = js_neg (actualAdded st x) \<and>
                 log_gallonsLeft e = parseFloat (toFixed sh 2 (refillTarget st x))) \<and>
            gallonsLeft (snapshot sh (snd (performRefill sh rp x st))) =
              parseFloat (toFixed sh 2 (refillTarget st x)) \<and>
            (\<forall>m. refillTarget st x = Fin m \<and> \<bar>m\<bar> < 10 ^ 21 \<longrightarrow>
                 gallonsLeft (snapshot sh (snd (performRefill sh rp x st))) = num (roundTo 2 m)) \<and>
            (\<forall>m. refillTarget st x = Fin m \<and> is_integral m \<and> \<bar>m\<bar> < 2 ^ 53 \<longrightarrow>
                 gallonsLeft (snapshot sh (snd (performRefill sh rp x st))) = Fin m))"
proof (intro conjI impI)
  assume "js_le (actualAdded st x) (num (1 / 100))"
  then show "performRefill sh rp x st = (Failed TankFull, st)"
    using assms(1) by (rule performRefill_fail [rotated])
next
  assume "gallonsLeft st = startingGallons st \<and> (\<exists>c. gallonsLeft st = Fin c) \<and> \<not> isNaN x"
  then obtain c where c: "gallonsLeft st = Fin c" and eq: "gallonsLeft st = startingGallons st"
    and nx: "\<not> isNaN x"
    by blast
  from c eq have "startingGallons st = Fin c" by simp
  with c nx have "js_le (actualAdded st x) (num (1 / 100))"
    using full_tank [of x c] by (simp add: actualAdded_def refillTarget_def)
  then show "performRefill sh rp x st = (Failed TankFull, st)"
    using assms(1) by (rule performRefill_fail [rotated])
next
  assume n: "\<not> js_le (actualAdded st x) (num (1 / 100))"
  note ok = performRefill_ok [OF assms n, of sh]
  show "fst (performRefill sh rp x st)
      = Refilled (js_lt (startingGallons st) (js_add (gallonsLeft st) x))"
    by (simp add: ok)
  show "\<exists>e. firestore (snd (performRefill sh rp x st)) = firestore st @ [e] \<and>
                 roadName e = ''TANK REFILL'' \<and>
                 gallonsUsed e = js_neg (actualAdded st x) \<and>
                 log_gallonsLeft e = parseFloat (toFixed sh 2 (refillTarget st x))"
    by (simp add: ok)
  show gl: "gallonsLeft (snapshot sh (snd (performRefill sh rp x st))) =
              parseFloat (toFixed sh 2 (refillTarget st x))"
    using snapshot_tank [of "snd (performRefill sh rp x st)" sh] by (simp add: ok)
  show "\<forall>m. refillTarget st x = Fin m \<and> \<bar>m\<bar> < 10 ^ 21 \<longrightarrow>
                 gallonsLeft (snapshot sh (snd (performRefill sh rp x st))) = num (roundTo 2 m)"
    by (simp add: gl parseFloat_toFixed)
  show "\<forall>m. refillTarget st x = Fin m \<and> is_integral m \<and> \<bar>m\<bar> < 2 ^ 53 \<longrightarrow>
                 gallonsLeft (snapshot sh (snd (performRefill sh rp x st))) = Fin m"
    by (simp add: gl stored_integral)
qed

theorem performRefill_caps_and_rounds_witness:
  "\<not> notReady (tankAfter (Fin 20)) \<and> accepted (sampleReply ''r'') \<and>
   gallonsLeft (tankAfter (Fin 20)) = Fin 580 \<and>
   actualAdded (tankAfter (Fin 20)) (Fin 50) = Fin 20 \<and>
   \<not> js_le (actualAdded (tankAfter (Fin 20)) (Fin 50)) (num (1 / 100)) \<and>
   fst (performRefill sampleShortest (sampleReply ''r'') (Fin 50) (tankAfter (Fin 20))) = Refilled True \<and>
   gallonsLeft (snapshot sampleShortest
      (snd (performRefill sampleShortest (sampleReply ''r'') (Fin 50) (tankAfter (Fin 20))))) = Fin 600"
proof -
  have r: "\<not> notReady (tankAfter (Fin 20))" "accepted (sampleReply ''r'')"
    using tankAfter_20 by (simp_all add: sampleReply_def)
  have a: "actualAdded (tankAfter (Fin 20)) (Fin 50) = Fin 20"
    "refillTarget (tankAfter (Fin 20)) (Fin 50) = Fin 600"
    "js_add (gallonsLeft (tankAfter (Fin 20))) (Fin 50) = Fin 630"
    using tankAfter_20
    by (simp_all add: actualAdded_def refillTarget_def js_sub_def num_integral is_integral_def)
  have n: "\<not> js_le (actualAdded (tankAfter (Fin 20)) (Fin 50)) (num (1 / 100))"
    by (simp add: a num_0_01)
  have i: "is_integral 600 \<and> \<bar>600 :: rat\<bar> < 2 ^ 53"
    by (simp add: is_integral_def)
  from performRefill_caps_and_rounds [OF r, of "Fin 50" sampleShortest] n
  have c: "fst (performRefill sampleShortest (sampleReply ''r'') (Fin 50) (tankAfter (Fin 20)))
        = Refilled (js_lt (startingGallons (tankAfter (Fin 20)))
                     (js_add (gallonsLeft (tankAfter (Fin 20))) (Fin 50)))"
    and "\<forall>m. refillTarget (tankAfter (Fin 20)) (Fin 50) = Fin m \<and> is_integral m \<and> \<bar>m\<bar> < 2 ^ 53 \<longrightarrow>
         gallonsLeft (snapshot sampleShortest
           (snd (performRefill sampleShortest (sampleReply ''r'') (Fin 50) (tankAfter (Fin 20))))) = Fin m"
    by blast+
  then have g: "gallonsLeft (snapshot sampleShortest
           (snd (performRefill sampleShortest (sampleReply ''r'') (Fin 50) (tankAfter (Fin 20))))) = Fin 600"
    using a(2) i by blast
  show ?thesis
    using r a(1) n c g tankAfter_20 by (simp add: a(3) num_integral is_integral_def)
qed

text \<open>
  C2 as stated fails in two ways. With 500 gallons left of 600, a request of 0.125 gallons
  is accepted with \<open>actualAdded = 0.125\<close>, and the new \<open>gallonsLeft\<close> is 500.13, not
  \<open>gallonsLeft + actualAdded = 500.125\<close>. With 0.3 gallons left, a request of 0.6 gallons
  gives the sum \<open>0.8999999999999999\<close> and \<open>actualAdded = 0.5999999999999999\<close>, which is
  less than the request, and yet the refill is not reported as capped.
\<close>

theorem performRefill_sum_counterexample:
  "fst (performRefill sampleShortest (sampleReply ''r'') (Fin (1 / 8)) (tankAfter (Fin 100)))
     = Refilled False \<and>
   actualAdded (tankAfter (Fin 100)) (Fin (1 / 8)) = Fin (1 / 8) \<and>
   gallonsLeft (snapshot sampleShortest
      (snd (performRefill sampleShortest (sampleReply ''r'') (Fin (1 / 8)) (tankAfter (Fin 100)))))
     = num (50013 / 100) \<and>
   js_add (gallonsLeft (tankAfter (Fin 100))) (actualAdded (tankAfter (Fin 100)) (Fin (1 / 8)))
     = Fin (4001 / 8) \<and>
   num (50013 / 100) \<noteq> Fin (4001 / 8) \<and>
   gallonsLeft (tankAfter (num (5997 / 10))) = num (3 / 10) \<and>
   fst (performRefill sampleShortest (sampleReply ''r'') (num (3 / 5)) (tankAfter (num (5997 / 10))))
     = Refilled False \<and>
   js_lt (actualAdded (tankAfter (num (5997 / 10))) (num (3 / 5))) (num (3 / 5))"
proof -
  have acc: "accepted (sampleReply ''r'')" by (simp add: sampleReply_def)
  have r: "\<not> notReady (tankAfter (Fin 100))" using tankAfter_100 by simp
  have s: "num (4001 / 8) = Fin (4001 / 8)"
    using num_dyadic [of "4001 / 8" 3] by (simp add: is_integral_def)
  have a: "actualAdded (tankAfter (Fin 100)) (Fin (1 / 8)) = Fin (1 / 8)"
      "refillTarget (tankAfter (Fin 100)) (Fin (1 / 8)) = Fin (4001 / 8)"
      "js_add (gallonsLeft (tankAfter (Fin 100))) (Fin (1 / 8)) = Fin (4001 / 8)"
    using tankAfter_100 num_dyadic [of "1 / 8" 3]
    by (simp_all add: actualAdded_def refillTarget_def js_sub_def s is_integral_def)
  have n: "\<not> js_le (actualAdded (tankAfter (Fin 100)) (Fin (1 / 8))) (num (1 / 100))"
    by (simp add: a num_0_01)
  note ok = performRefill_ok [OF r acc n, of sampleShortest]
  have rt: "roundTo 2 (4001 / 8) = 50013 / 100"
    by (simp add: roundTo_def Let_def floor_quotient)
  have gl: "gallonsLeft (snapshot sampleShortest
      (snd (performRefill sampleShortest (sampleReply ''r'') (Fin (1 / 8)) (tankAfter (Fin 100)))))
     = num (50013 / 100)"
    using snapshot_tank [of "snd (performRefill sampleShortest (sampleReply ''r'') (Fin (1 / 8)) (tankAfter (Fin 100)))" sampleShortest]
    by (simp add: ok a parseFloat_toFixed rt)
  have f: "fst (performRefill sampleShortest (sampleReply ''r'') (Fin (1 / 8)) (tankAfter (Fin 100)))
      = Refilled False"
    using tankAfter_100 by (simp add: ok a s)
  have v: "num (50013 / 100) = Fin (4399190003196887 / 8796093022208)"
    using num_normal [of "50013 / 100" 44] by (simp add: round_simps)
  have first: "fst (performRefill sampleShortest (sampleReply ''r'') (Fin (1 / 8)) (tankAfter (Fin 100)))
       = Refilled False \<and>
     actualAdded (tankAfter (Fin 100)) (Fin (1 / 8)) = Fin (1 / 8) \<and>
     gallonsLeft (snapshot sampleShortest
        (snd (performRefill sampleShortest (sampleReply ''r'') (Fin (1 / 8)) (tankAfter (Fin 100)))))
       = num (50013 / 100) \<and>
     js_add (gallonsLeft (tankAfter (Fin 100))) (actualAdded (tankAfter (Fin 100)) (Fin (1 / 8)))
       = Fin (4001 / 8) \<and>
     num (50013 / 100) \<noteq> Fin (4001 / 8)"
    using f gl a by (simp add: v)
  have r2: "\<not> notReady (tankAfter (num (5997 / 10)))" using tankAfter_599_7 by simp
  have t: "num (16212958658533785 / 18014398509481984) = Fin (2026619832316723 / 2251799813685248)"
    using num_normal [of "16212958658533785 / 18014398509481984" 53]
    by (simp add: round_simps)
  have d: "num (10808639105689189 / 18014398509481984) = Fin (2702159776422297 / 4503599627370496)"
    using num_normal [of "10808639105689189 / 18014398509481984" 53]
    by (simp add: round_simps)
  have a2: "actualAdded (tankAfter (num (5997 / 10))) (num (3 / 5))
      = Fin (2702159776422297 / 4503599627370496)"
    "js_add (gallonsLeft (tankAfter (num (5997 / 10)))) (num (3 / 5))
      = Fin (2026619832316723 / 2251799813685248)"
    using tankAfter_599_7
    by (simp_all add: actualAdded_def refillTarget_def js_sub_def num_0_3 num_0_6 t d)
  have n2: "\<not> js_le (actualAdded (tankAfter (num (5997 / 10))) (num (3 / 5))) (num (1 / 100))"
    by (simp add: a2 num_0_01)
  note ok2 = performRefill_ok [OF r2 acc n2, of sampleShortest]
  have c2: "fst (performRefill sampleShortest (sampleReply ''r'') (num (3 / 5)) (tankAfter (num (5997 / 10))))
       = Refilled False"
    unfolding ok2 a2(2) using tankAfter_599_7 by simp
  have l2: "js_lt (actualAdded (tankAfter (num (5997 / 10))) (num (3 / 5))) (num (3 / 5))"
    unfolding a2(1) by (simp add: num_0_6)
  have second: "gallonsLeft (tankAfter (num (5997 / 10))) = num (3 / 10) \<and>
     fst (performRefill sampleShortest (sampleReply ''r'') (num (3 / 5)) (tankAfter (num (5997 / 10))))
       = Refilled False \<and>
     js_lt (actualAdded (tankAfter (num (5997 / 10))) (num (3 / 5))) (num (3 / 5))"
    using tankAfter_599_7 c2 l2 by blast
  from first second show ?thesis by blast
qed

section \<open>Application: insufficient inventory\<close>

lemma exceeds_not_NaN: "js_gt u g \<Longrightarrow> \<not> isNaN u"
  by (cases u; cases g) (auto simp add: js_gt_def)

lemma exceeds_positive:
  "js_gt u g \<Longrightarrow> js_le (Fin 0) g \<Longrightarrow> \<not> js_le u (Fin 0)"
  by (cases u; cases g) (auto simp add: js_gt_def)

lemma overdrawn_facts:
  "gallonsUsedOnRoad (overdrawnForm road) = Fin 700 \<and> gallonsLeft (overdrawnForm road) = Fin 600 \<and>
   selectedRoad (overdrawnForm road) = road \<and> firestore (overdrawnForm road) = []"
  by (simp add: overdrawnForm_def signedIn_def initialState_def)

text \<open>
  C3, as the code has it. A call of \<open>logApplication\<close> whose volume exceeds the derived
  \<open>gallonsLeft\<close> always fails and leaves the whole state, the collection included,
  unchanged. The road is checked first and the sign of the volume second: the failure is
  \<open>EmptyRoad\<close> when the road is blank (empty, or white space only), \<open>NonPositiveVolume\<close>
  when the road is not blank and the volume is not positive (which needs a negative
  \<open>gallonsLeft\<close>), and \<open>InsufficientInventory\<close> in every other case, in particular
  whenever the road is not blank and \<open>gallonsLeft\<close> is not negative.
\<close>

theorem logApplication_insufficient:
  assumes "js_gt (gallonsUsedOnRoad st) (gallonsLeft st)"
  shows "(\<exists>e. fst (logApplication sh rp st) = Failed e) \<and>
         snd (logApplication sh rp st) = st \<and>
         (trim (selectedRoad st) = [] \<longrightarrow>
            logApplication sh rp st = (Failed EmptyRoad, st)) \<and>
         (trim (selectedRoad st) \<noteq> [] \<and> js_le (gallonsUsedOnRoad st) (Fin 0) \<longrightarrow>
            logApplication sh rp st = (Failed NonPositiveVolume, st)) \<and>
         (trim (selectedRoad st) \<noteq> [] \<and> \<not> js_le (gallonsUsedOnRoad st) (Fin 0) \<longrightarrow>
            logApplication sh rp st = (Failed InsufficientInventory, st)) \<and>
         (trim (selectedRoad st) \<noteq> [] \<and> js_le (Fin 0) (gallonsLeft st) \<longrightarrow>
            logApplication sh rp st = (Failed InsufficientInventory, st))"
proof (intro conjI impI)
  show "\<exists>e. fst (logApplication sh rp st) = Failed e"
    using assms by (simp add: logApplication_def Let_def)
  show "snd (logApplication sh rp st) = st"
    using assms by (simp add: logApplication_def Let_def)
next
  assume "trim (selectedRoad st) = []"
  then show "logApplication sh rp st = (Failed EmptyRoad, st)"
    by (simp add: logApplication_def Let_def)
next
  assume a: "trim (selectedRoad st) \<noteq> [] \<and> js_le (gallonsUsedOnRoad st) (Fin 0)"
  then have "selectedRoad st \<noteq> []" using trim_Nil by auto
  then show "logApplication sh rp st = (Failed NonPositiveVolume, st)"
    using a by (simp add: logApplication_def Let_def)
next
  assume a: "trim (selectedRoad st) \<noteq> [] \<and> \<not> js_le (gallonsUsedOnRoad st) (Fin 0)"
  then have "selectedRoad st \<noteq> []" using trim_Nil by auto
  then show "logApplication sh rp st = (Failed InsufficientInventory, st)"
    using assms a exceeds_not_NaN [OF assms] by (simp add: logApplication_def Let_def)
next
  assume a: "trim (selectedRoad st) \<noteq> [] \<and> js_le (Fin 0) (gallonsLeft st)"
  then have "selectedRoad st \<noteq> []" using trim_Nil by auto
  moreover have "\<not> js_le (gallonsUsedOnRoad st) (Fin 0)"
    using exceeds_positive [OF assms] a by simp
  ultimately show "logApplication sh rp st = (Failed InsufficientInventory, st)"
    using assms a exceeds_not_NaN [OF assms] by (simp add: logApplication_def Let_def)
qed

theorem logApplication_insufficient_witness:
  "js_gt (gallonsUsedOnRoad (overdrawnForm ''Elk'')) (gallonsLeft (overdrawnForm ''Elk'')) \<and>
   trim (selectedRoad (overdrawnForm ''Elk'')) \<noteq> [] \<and>
   js_le (Fin 0) (gallonsLeft (overdrawnForm ''Elk'')) \<and>
   logApplication sampleShortest (sampleReply ''a'') (overdrawnForm ''Elk'')
     = (Failed InsufficientInventory, overdrawnForm ''Elk'') \<and>
   js_gt (gallonsUsedOnRoad (overdrawnForm [CHR 0xC2, CHR 0xA0]))
     (gallonsLeft (overdrawnForm [CHR 0xC2, CHR 0xA0])) \<and>
   trim (selectedRoad (overdrawnForm [CHR 0xC2, CHR 0xA0])) = [] \<and>
   logApplication sampleShortest (sampleReply ''a'') (overdrawnForm [CHR 0xC2, CHR 0xA0])
     = (Failed EmptyRoad, overdrawnForm [CHR 0xC2, CHR 0xA0])"
proof -
  have h: "js_gt (gallonsUsedOnRoad (overdrawnForm road)) (gallonsLeft (overdrawnForm road))" for road
    by (simp add: overdrawn_facts js_gt_def)
  have t: "trim (selectedRoad (overdrawnForm ''Elk'')) \<noteq> [] \<and>
      js_le (Fin 0) (gallonsLeft (overdrawnForm ''Elk''))"
    by (simp add: overdrawn_facts trim_samples)
  have b: "trim (selectedRoad (overdrawnForm [CHR 0xC2, CHR 0xA0])) = []"
    by (simp add: overdrawn_facts trim_samples)
  show ?thesis
    using logApplication_insufficient [OF h [of "''Elk''"], of sampleShortest "sampleReply ''a''"]
      logApplication_insufficient [OF h [of "[CHR 0xC2, CHR 0xA0]"], of sampleShortest "sampleReply ''a''"]
      h t b
    by blast
qed

text \<open>
  C3 as stated fails: with a blank road and 700 gallons asked of a tank of 600, the call
  fails with \<open>EmptyRoad\<close>, not with \<open>InsufficientInventory\<close>.
\<close>

theorem logApplication_blank_road_counterexample:
  "js_gt (gallonsUsedOnRoad (overdrawnForm [])) (gallonsLeft (overdrawnForm [])) \<and>
   fst (logApplication sampleShortest (sampleReply ''a'') (overdrawnForm [])) = Failed EmptyRoad \<and>
   fst (logApplication sampleShortest (sampleReply ''a'') (overdrawnForm []))
     \<noteq> Failed InsufficientInventory"
  by (simp add: overdrawn_facts js_gt_def logApplication_def Let_def)

section \<open>Validation of the volume\<close>

lemma volumeForm_facts:
  "gallonsToRefill (volumeForm road v) = v \<and> gallonsUsedOnRoad (volumeForm road v) = v \<and>
   selectedRoad (volumeForm road v) = road \<and> gallonsLeft (volumeForm road v) = Fin 500 \<and>
   length (firestore (volumeForm road v)) = 1"
  using tankAfter_100 by (simp add: volumeForm_def)

text \<open>
  C9, as the code has it. A volume that is \<open>NaN\<close> or at most 0 (\<open>-Infinity\<close> included) is
  rejected by both operations before any append: \<open>logRefill\<close> fails with
  \<open>NonPositiveVolume\<close>, and \<open>logApplication\<close> fails with \<open>NonPositiveVolume\<close> when the road
  is not blank and with \<open>EmptyRoad\<close> when it is (the road is checked first). A volume of
  \<open>Infinity\<close> is rejected by \<open>logApplication\<close> too, before any append, though not by the
  check of the volume: with a road that is not blank it fails with \<open>InsufficientInventory\<close>,
  \<open>gallonsLeft\<close> being finite. Every failure leaves the state, the collection included,
  unchanged.
\<close>

theorem nonpositive_volume_rejected:
  "((isNaN v \<or> js_le v (Fin 0)) \<and> gallonsToRefill st = v \<longrightarrow>
      handleRefill sh rp st = (Failed NonPositiveVolume, st)) \<and>
   ((isNaN v \<or> js_le v (Fin 0)) \<and> gallonsUsedOnRoad st = v \<and> trim (selectedRoad st) \<noteq> [] \<longrightarrow>
      logApplication sh rp st = (Failed NonPositiveVolume, st)) \<and>
   ((isNaN v \<or> js_le v (Fin 0) \<or> v = PosInf) \<and> gallonsUsedOnRoad st = v \<and>
    trim (selectedRoad st) = [] \<longrightarrow>
      logApplication sh rp st = (Failed EmptyRoad, st)) \<and>
   (v = PosInf \<and> gallonsUsedOnRoad st = v \<and> trim (selectedRoad st) \<noteq> [] \<and>
    (\<exists>g. gallonsLeft st = Fin g) \<longrightarrow>
      logApplication sh rp st = (Failed InsufficientInventory, st))"
proof (intro conjI impI)
  assume "(isNaN v \<or> js_le v (Fin 0)) \<and> gallonsToRefill st = v"
  then show "handleRefill sh rp st = (Failed NonPositiveVolume, st)"
    by (auto simp add: handleRefill_def Let_def)
next
  assume a: "(isNaN v \<or> js_le v (Fin 0)) \<and> gallonsUsedOnRoad st = v \<and> trim (selectedRoad st) \<noteq> []"
  then have "selectedRoad st \<noteq> []" using trim_Nil by auto
  then show "logApplication sh rp st = (Failed NonPositiveVolume, st)"
    using a by (auto simp add: logApplication_def Let_def)
next
  assume "(isNaN v \<or> js_le v (Fin 0) \<or> v = PosInf) \<and> gallonsUsedOnRoad st = v \<and>
    trim (selectedRoad st) = []"
  then show "logApplication sh rp st = (Failed EmptyRoad, st)"
    by (simp add: logApplication_def Let_def)
next
  assume a: "v = PosInf \<and> gallonsUsedOnRoad st = v \<and> trim (selectedRoad st) \<noteq> [] \<and>
    (\<exists>g. gallonsLeft st = Fin g)"
  then have "selectedRoad st \<noteq> []" using trim_Nil by auto
  then show "logApplication sh rp st = (Failed InsufficientInventory, st)"
    using a by (auto simp add: logApplication_def Let_def js_gt_def)
qed

theorem nonpositive_volume_rejected_witness:
  "(isNaN (Fin 0) \<or> js_le (Fin 0) (Fin 0)) \<and>
   gallonsToRefill (volumeForm ''Elk'' (Fin 0)) = Fin 0 \<and>
   gallonsUsedOnRoad (volumeForm ''Elk'' (Fin 0)) = Fin 0 \<and>
   trim (selectedRoad (volumeForm ''Elk'' (Fin 0))) \<noteq> [] \<and>
   handleRefill sampleShortest (sampleReply ''r'') (volumeForm ''Elk'' (Fin 0))
     = (Failed NonPositiveVolume, volumeForm ''Elk'' (Fin 0)) \<and>
   logApplication sampleShortest (sampleReply ''r'') (volumeForm ''Elk'' (Fin 0))
     = (Failed NonPositiveVolume, volumeForm ''Elk'' (Fin 0)) \<and>
   (isNaN (Fin (- 5)) \<or> js_le (Fin (- 5)) (Fin 0)) \<and>
   trim (selectedRoad (volumeForm [CHR 0xC2, CHR 0xA0] (Fin (- 5)))) = [] \<and>
   handleRefill sampleShortest (sampleReply ''r'') (volumeForm [CHR 0xC2, CHR 0xA0] (Fin (- 5)))
     = (Failed NonPositiveVolume, volumeForm [CHR 0xC2, CHR 0xA0] (Fin (- 5))) \<and>
   logApplication sampleShortest (sampleReply ''r'') (volumeForm [CHR 0xC2, CHR 0xA0] (Fin (- 5)))
     = (Failed EmptyRoad, volumeForm [CHR 0xC2, CHR 0xA0] (Fin (- 5))) \<and>
   gallonsUsedOnRoad (volumeForm ''Elk'' PosInf) = PosInf \<and>
   gallonsLeft (volumeForm ''Elk'' PosInf) = Fin 500 \<and>
   logApplication sampleShortest (sampleReply ''r'') (volumeForm ''Elk'' PosInf)
     = (Failed InsufficientInventory, volumeForm ''Elk'' PosInf)"
proof -
  have h: "isNaN (Fin 0) \<or> js_le (Fin 0) (Fin 0)" "isNaN (Fin (- 5)) \<or> js_le (Fin (- 5)) (Fin 0)"
    by simp_all
  have t: "trim (selectedRoad (volumeForm ''Elk'' v)) \<noteq> []"
    "trim (selectedRoad (volumeForm [CHR 0xC2, CHR 0xA0] v)) = []" for v
    by (simp_all add: volumeForm_facts trim_samples)
  show ?thesis
    using nonpositive_volume_rejected
        [of "Fin 0" "volumeForm ''Elk'' (Fin 0)" sampleShortest "sampleReply ''r''"]
      nonpositive_volume_rejected
        [of "Fin (- 5)" "volumeForm [CHR 0xC2, CHR 0xA0] (Fin (- 5))" sampleShortest "sampleReply ''r''"]
      nonpositive_volume_rejected
        [of PosInf "volumeForm ''Elk'' PosInf" sampleShortest "sampleReply ''r''"]
      h t volumeForm_facts
    by simp
qed

text \<open>
  C9 as stated fails for positive infinity, which the check \<open>isNaN(x) || x <= 0\<close> lets
  through: with 500 gallons left of 600, \<open>logRefill(Infinity)\<close> succeeds and appends a
  refill of 100 gallons, reported as capped.
\<close>

theorem infinite_refill_counterexample:
  "gallonsToRefill infiniteRefillForm = PosInf \<and>
   fst (handleRefill sampleShortest (sampleReply ''r'') infiniteRefillForm) = Refilled True \<and>
   length (firestore (snd (handleRefill sampleShortest (sampleReply ''r'') infiniteRefillForm)))
     = length (firestore infiniteRefillForm) + 1 \<and>
   gallonsUsed (last (firestore (snd (handleRefill sampleShortest (sampleReply ''r'')
     infiniteRefillForm)))) = Fin (- 100)"
proof -
  have f: "gallonsToRefill infiniteRefillForm = PosInf"
    "gallonsLeft infiniteRefillForm = Fin 500" "startingGallons infiniteRefillForm = Fin 600"
    "\<not> notReady infiniteRefillForm"
    using tankAfter_100 by (simp_all add: infiniteRefillForm_def notReady_def)
  have a: "actualAdded infiniteRefillForm PosInf = Fin 100"
    by (simp add: actualAdded_def refillTarget_def f js_sub_def num_integral is_integral_def)
  have n: "\<not> js_le (actualAdded infiniteRefillForm PosInf) (num (1 / 100))"
    by (simp add: a num_0_01)
  have acc: "accepted (sampleReply ''r'')" by (simp add: sampleReply_def)
  have h: "handleRefill sampleShortest (sampleReply ''r'') infiniteRefillForm
      = performRefill sampleShortest (sampleReply ''r'') PosInf infiniteRefillForm"
    by (simp add: handleRefill_def f Let_def)
  show ?thesis
    by (simp add: h performRefill_ok [OF f(4) acc n] f a)
qed

section \<open>An application on the road named like the refill label\<close>

lemma snapshot_logs: "logs (snapshot sh st) = rev (firestore st)"
  by (simp add: snapshot_def syncConditions_def afterRender_def chemicalMixEffect_def
      onSnapshot_def Let_def split: option.splits)

lemma logApplication_ok:
  assumes "trim (selectedRoad st) \<noteq> []"
    and "\<not> isNaN (gallonsUsedOnRoad st)" and "\<not> js_le (gallonsUsedOnRoad st) (Fin 0)"
    and "\<not> js_gt (gallonsUsedOnRoad st) (gallonsLeft st)"
    and "chemicalMix st \<noteq> []"
    and "trim (weather st) \<noteq> []" and "truthy (temperature st)"
    and "windDirection st \<noteq> []" and "truthy (windSpeed st)"
    and "\<not> notReady st" and "accepted rp"
  shows "logApplication sh rp st =
     (Logged,
      st\<lparr>firestore := firestore st @
            [\<lparr>docId = newDocId rp, roadName = selectedRoad st,
              gallonsUsed = parseFloat (toFixed sh 2 (gallonsUsedOnRoad st)),
              log_gallonsLeft = parseFloat (toFixed sh 2 (js_sub (gallonsLeft st) (gallonsUsedOnRoad st))),
              initialTankVolume = startingGallons st, log_chemicalMix = chemicalMix st,
              weatherConditions =
                Some \<lparr>wc_weather = trim (weather st), wc_temperature = temperature st,
                      wc_windDirection = windDirection st, wc_windSpeed = windSpeed st\<rparr>,
              timestamp = serverTime rp\<rparr>],
         gallonsUsedOnRoad := Fin 0, selectedRoad := []\<rparr>)"
proof -
  have "selectedRoad st \<noteq> []" using assms(1) trim_Nil by auto
  then show ?thesis using assms by (simp add: logApplication_def Let_def)
qed

lemma tankAfter_100_events:
  "map roadName (firestore (tankAfter (Fin 100))) = [''Elk'']"
  by (simp add: tankAfter_def step_defs)

lemma sentinelForm_facts:
  "selectedRoad sentinelForm = ''TANK REFILL'' \<and> gallonsUsedOnRoad sentinelForm = Fin 50 \<and>
   gallonsLeft sentinelForm = Fin 500 \<and> chemicalMix sentinelForm = sampleMix \<and>
   weather sentinelForm = ''Clear'' \<and> temperature sentinelForm = Fin 70 \<and>
   windDirection sentinelForm = ''North'' \<and> windSpeed sentinelForm = Fin 5 \<and>
   \<not> notReady sentinelForm \<and> map roadName (firestore sentinelForm) = [''Elk'']"
  using tankAfter_100 tankAfter_100_events by (simp add: sentinelForm_def notReady_def)

text \<open>
  C10. When the selected road is exactly \<open>TANK REFILL\<close> and the other inputs pass
  validation (the system being initialised and the store accepting the write),
  \<open>logApplication\<close> succeeds and appends an event that carries the staged chemicals and the
  conditions. After the store's notification that event is the newest of the refills of the
  report, and neither the applications of the report nor the rows of the history table have
  changed: they do not hold it. The three consumers partition by the label alone: an event
  of the history is among the refills exactly when its road is \<open>TANK REFILL\<close>, and among the
  applications, and among the rows of the table, exactly when it is not.
\<close>

theorem sentinel_road_is_logged_as_refill:
  assumes "selectedRoad st = ''TANK REFILL''"
    and "\<not> isNaN (gallonsUsedOnRoad st)" and "\<not> js_le (gallonsUsedOnRoad st) (Fin 0)"
    and "\<not> js_gt (gallonsUsedOnRoad st) (gallonsLeft st)"
    and "chemicalMix st \<noteq> []"
    and "trim (weather st) \<noteq> []" and "truthy (temperature st)"
    and "windDirection st \<noteq> []" and "truthy (windSpeed st)"
    and "\<not> notReady st" and "accepted rp"
  shows "fst (logApplication sh rp st) = Logged \<and>
         (\<exists>e. firestore (snd (logApplication sh rp st)) = firestore st @ [e] \<and>
              roadName e = ''TANK REFILL'' \<and>
              log_chemicalMix e = chemicalMix st \<and> log_chemicalMix e \<noteq> [] \<and>
              hasConditions e \<and>
              logs (snapshot sh (snd (logApplication sh rp st))) = e # rev (firestore st) \<and>
              refillLogs (logs (snapshot sh (snd (logApplication sh rp st))))
                = e # refillLogs (rev (firestore st)) \<and>
              applicationLogs (logs (snapshot sh (snd (logApplication sh rp st))))
                = applicationLogs (rev (firestore st)) \<and>
              historyRows (snapshot sh (snd (logApplication sh rp st)))
                = applicationLogs (rev (firestore st)) \<and>
              e \<notin> set (applicationLogs (logs (snapshot sh (snd (logApplication sh rp st))))) \<and>
              e \<notin> set (historyRows (snapshot sh (snd (logApplication sh rp st))))) \<and>
         (\<forall>x \<in> set (logs (snapshot sh (snd (logApplication sh rp st)))).
            (x \<in> set (refillLogs (logs (snapshot sh (snd (logApplication sh rp st)))))
               \<longleftrightarrow> roadName x = ''TANK REFILL'') \<and>
            (x \<in> set (applicationLogs (logs (snapshot sh (snd (logApplication sh rp st)))))
               \<longleftrightarrow> roadName x \<noteq> ''TANK REFILL'') \<and>
            (x \<in> set (historyRows (snapshot sh (snd (logApplication sh rp st))))
               \<longleftrightarrow> roadName x \<noteq> ''TANK REFILL''))"
proof -
  have t: "trim (selectedRoad st) \<noteq> []" by (simp add: assms(1) trim_samples)
  note ok = logApplication_ok [OF t assms(2-11), of sh]
  have a: "fst (logApplication sh rp st) = Logged" by (simp add: ok)
  have b: "\<exists>e. firestore (snd (logApplication sh rp st)) = firestore st @ [e] \<and>
              roadName e = ''TANK REFILL'' \<and>
              log_chemicalMix e = chemicalMix st \<and> log_chemicalMix e \<noteq> [] \<and>
              hasConditions e \<and>
              logs (snapshot sh (snd (logApplication sh rp st))) = e # rev (firestore st) \<and>
              refillLogs (logs (snapshot sh (snd (logApplication sh rp st))))
                = e # refillLogs (rev (firestore st)) \<and>
              applicationLogs (logs (snapshot sh (snd (logApplication sh rp st))))
                = applicationLogs (rev (firestore st)) \<and>
              historyRows (snapshot sh (snd (logApplication sh rp st)))
                = applicationLogs (rev (firestore st)) \<and>
              e \<notin> set (applicationLogs (logs (snapshot sh (snd (logApplication sh rp st))))) \<and>
              e \<notin> set (historyRows (snapshot sh (snd (logApplication sh rp st))))"
    using assms(1,5,6)
    by (simp add: ok snapshot_logs applicationLogs_def refillLogs_def historyRows_def
        hasConditions_def)
  have c: "\<forall>x \<in> set (logs (snapshot sh (snd (logApplication sh rp st)))).
            (x \<in> set (refillLogs (logs (snapshot sh (snd (logApplication sh rp st)))))
               \<longleftrightarrow> roadName x = ''TANK REFILL'') \<and>
            (x \<in> set (applicationLogs (logs (snapshot sh (snd (logApplication sh rp st)))))
               \<longleftrightarrow> roadName x \<noteq> ''TANK REFILL'') \<and>
            (x \<in> set (historyRows (snapshot sh (snd (logApplication sh rp st))))
               \<longleftrightarrow> roadName x \<noteq> ''TANK REFILL'')"
    by (simp add: applicationLogs_def refillLogs_def historyRows_def)
  from a b c show ?thesis by blast
qed

theorem sentinel_road_is_logged_as_refill_witness:
  "selectedRoad sentinelForm = ''TANK REFILL'' \<and>
   \<not> isNaN (gallonsUsedOnRoad sentinelForm) \<and> \<not> js_le (gallonsUsedOnRoad sentinelForm) (Fin 0) \<and>
   \<not> js_gt (gallonsUsedOnRoad sentinelForm) (gallonsLeft sentinelForm) \<and>
   chemicalMix sentinelForm \<noteq> [] \<and> trim (weather sentinelForm) \<noteq> [] \<and>
   truthy (temperature sentinelForm) \<and> windDirection sentinelForm \<noteq> [] \<and>
   truthy (windSpeed sentinelForm) \<and> \<not> notReady sentinelForm \<and> accepted (sampleReply ''b'') \<and>
   fst (logApplication sampleShortest (sampleReply ''b'') sentinelForm) = Logged \<and>
   map roadName (logs (snapshot sampleShortest
      (snd (logApplication sampleShortest (sampleReply ''b'') sentinelForm))))
     = [''TANK REFILL'', ''Elk''] \<and>
   map roadName (refillLogs (logs (snapshot sampleShortest
      (snd (logApplication sampleShortest (sampleReply ''b'') sentinelForm)))))
     = [''TANK REFILL''] \<and>
   map log_chemicalMix (refillLogs (logs (snapshot sampleShortest
      (snd (logApplication sampleShortest (sampleReply ''b'') sentinelForm)))))
     = [sampleMix] \<and>
   map roadName (applicationLogs (logs (snapshot sampleShortest
      (snd (logApplication sampleShortest (sampleReply ''b'') sentinelForm)))))
     = [''Elk''] \<and>
   map roadName (historyRows (snapshot sampleShortest
      (snd (logApplication sampleShortest (sampleReply ''b'') sentinelForm))))
     = [''Elk'']"
proof -
  have h: "selectedRoad sentinelForm = ''TANK REFILL''"
    "\<not> isNaN (gallonsUsedOnRoad sentinelForm)" "\<not> js_le (gallonsUsedOnRoad sentinelForm) (Fin 0)"
    "\<not> js_gt (gallonsUsedOnRoad sentinelForm) (gallonsLeft sentinelForm)"
    "chemicalMix sentinelForm \<noteq> []" "trim (weather sentinelForm) \<noteq> []"
    "truthy (temperature sentinelForm)" "windDirection sentinelForm \<noteq> []"
    "truthy (windSpeed sentinelForm)" "\<not> notReady sentinelForm" "accepted (sampleReply ''b'')"
    by (simp_all add: sentinelForm_facts js_gt_def sampleMix_def trim_samples sampleReply_def)
  define st' where
    "st' = snapshot sampleShortest (snd (logApplication sampleShortest (sampleReply ''b'') sentinelForm))"
  from sentinel_road_is_logged_as_refill [OF h, of sampleShortest, folded st'_def]
  obtain e where e: "fst (logApplication sampleShortest (sampleReply ''b'') sentinelForm) = Logged"
    "roadName e = ''TANK REFILL''" "log_chemicalMix e = chemicalMix sentinelForm"
    "logs st' = e # rev (firestore sentinelForm)"
    "refillLogs (logs st') = e # refillLogs (rev (firestore sentinelForm))"
    "applicationLogs (logs st') = applicationLogs (rev (firestore sentinelForm))"
    "historyRows st' = applicationLogs (rev (firestore sentinelForm))"
    by blast
  obtain p where p: "firestore sentinelForm = [p]" "roadName p = ''Elk''"
    using sentinelForm_facts by (cases "firestore sentinelForm") auto
  have "map roadName (logs st') = [''TANK REFILL'', ''Elk''] \<and>
     map roadName (refillLogs (logs st')) = [''TANK REFILL''] \<and>
     map log_chemicalMix (refillLogs (logs st')) = [sampleMix] \<and>
     map roadName (applicationLogs (logs st')) = [''Elk''] \<and>
     map roadName (historyRows st') = [''Elk'']"
    by (simp add: e p refillLogs_def applicationLogs_def sentinelForm_facts)
  then show ?thesis
    using h e(1) unfolding st'_def by blast
qed


end
